theory Spec2Isabelle
  imports Complex_Main
begin

section \<open>Errors raised by the DQN agent\<close>

text \<open>
  Every exception that the modelled part of \<^verbatim>\<open>DQN.py\<close> can raise is a value of
  \<open>error\<close>. None of them is raised by an explicit \<^verbatim>\<open>raise\<close> of the repository:
  they come from the Python runtime and from the libraries the code calls.
  \<^item> \<open>OverflowError\<close>: \<^verbatim>\<open>collections.deque(maxlen=n)\<close> with an \<open>n\<close> that does not
    fit C's \<^verbatim>\<open>Py_ssize_t\<close> ("Python int too large to convert to C ssize_t");
  \<^item> \<open>NegativeMaxlen\<close>: \<^verbatim>\<open>collections.deque(maxlen=n)\<close> with \<open>n < 0\<close>
    (ValueError, "maxlen must be non-negative");
  \<^item> \<open>NegativeDimensions\<close>: \<^verbatim>\<open>np.random.choice(n, k, replace=False)\<close> with \<open>k < 0\<close>
    (ValueError);
  \<^item> \<open>LargerThanPopulation\<close>: the same call with \<open>k > n\<close> (ValueError, "Cannot take
    a larger sample than population when 'replace=False'"); this is the failure the
    specification calls InsufficientDataError;
  \<^item> \<open>NotEnoughValuesToUnpack\<close>: unpacking \<^verbatim>\<open>zip(*[])\<close> into five names (ValueError);
  \<^item> \<open>ZeroDivisionError\<close>: \<^verbatim>\<open>%\<close> or \<^verbatim>\<open>/\<close> on Python integers with divisor \<open>0\<close>;
  \<^item> \<open>IndexError\<close>: \<^verbatim>\<open>dims[-1]\<close> on an empty list, \<^verbatim>\<open>q[act]\<close> out of range;
  \<^item> \<open>RandintRange\<close>: \<^verbatim>\<open>np.random.randint(0, high)\<close> with \<open>high \<le> 0\<close> (ValueError);
  \<^item> \<open>EmptyReduction\<close>: \<^verbatim>\<open>tf.argmax\<close> or \<^verbatim>\<open>tf.reduce_max\<close> over a row of width zero;
  \<^item> \<open>AttributeError\<close>: reading \<^verbatim>\<open>self.q_target\<close> or \<^verbatim>\<open>self.target_frequency\<close>, which
    \<^verbatim>\<open>__init__\<close> sets only when \<^verbatim>\<open>use_target\<close> holds;
  \<^item> \<open>UnboundLocalError\<close>: \<^verbatim>\<open>return loss\<close> after a descent loop of zero iterations;
  \<^item> \<open>FileNotFoundError\<close>, \<open>DimensionMismatch\<close>, \<open>UnpicklingError\<close>: failures of
    \<^verbatim>\<open>load\<close>.
\<close>

datatype error =
    OverflowError
  | NegativeMaxlen
  | NegativeDimensions
  | LargerThanPopulation
  | NotEnoughValuesToUnpack
  | ZeroDivisionError
  | IndexError
  | RandintRange
  | EmptyReduction
  | AttributeError
  | UnboundLocalError
  | FileNotFoundError
  | DimensionMismatch
  | UnpicklingError

section \<open>Transitions and the replay buffer\<close>

text \<open>
  \<^verbatim>\<open>Experience = namedtuple('Experience', ['state', 'action', 'reward', 'done', 'new_state'])\<close>.
  The state type \<open>'s\<close> is left open (the code stores numpy arrays); actions are the
  non-negative integers that \<^verbatim>\<open>act\<close> returns; rewards are real numbers (floating-point
  rounding is not modelled).
\<close>

datatype 's Experience =
  Experience (exp_state: 's) (exp_action: nat) (exp_reward: real) (exp_done: bool)
    (exp_new_state: 's)

text \<open>
  \<^verbatim>\<open>ExperienceReplay\<close> wraps a \<^verbatim>\<open>collections.deque(maxlen=capacity)\<close>: the record keeps
  the bound and the items, oldest first.
\<close>

text \<open>
  \<^verbatim>\<open>sys.maxsize\<close>, the largest \<^verbatim>\<open>Py_ssize_t\<close>, on a 64-bit CPython: \<open>2^63 - 1\<close>.
\<close>

definition sys_maxsize :: int where
  "sys_maxsize = 9223372036854775807"

record 's ExperienceReplay =
  maxlen :: nat
  buffer :: "'s Experience list"

text \<open>
  \<^verbatim>\<open>ExperienceReplay.__init__\<close>. The deque's constructor first converts \<^verbatim>\<open>maxlen\<close> to
  a \<^verbatim>\<open>Py_ssize_t\<close>, which raises OverflowError outside
  \<open>- sys_maxsize - 1 .. sys_maxsize\<close>, and then rejects a negative value with its
  ValueError.
\<close>

definition ExperienceReplay_init :: "int \<Rightarrow> error + 's ExperienceReplay" where
  "ExperienceReplay_init capacity =
     (if capacity < - sys_maxsize - 1 \<or> sys_maxsize < capacity then Inl OverflowError
      else if capacity < 0 then Inl NegativeMaxlen
      else Inr \<lparr>maxlen = nat capacity, buffer = []\<rparr>)"

definition len :: "'s ExperienceReplay \<Rightarrow> nat" where
  "len r = length (buffer r)"

text \<open>
  \<^verbatim>\<open>ExperienceReplay.append\<close> (named \<open>append_replay\<close> here, since \<open>append\<close> is HOL's
  list concatenation). \<^verbatim>\<open>deque.append\<close> on a bounded deque puts the item at the right end and then, when
  the deque is longer than \<open>maxlen\<close>, pops one item from the left.
\<close>

definition append_replay :: "'s ExperienceReplay \<Rightarrow> 's Experience \<Rightarrow> 's ExperienceReplay" where
  "append_replay r experience =
     (let items = buffer r @ [experience]
      in r\<lparr>buffer := (if maxlen r < length items then tl items else items)\<rparr>)"

text \<open>A sequence of \<^verbatim>\<open>append\<close> calls, in order.\<close>

definition append_all :: "'s ExperienceReplay \<Rightarrow> 's Experience list \<Rightarrow> 's ExperienceReplay" where
  "append_all r xs = foldl append_replay r xs"

section \<open>Numbers\<close>

text \<open>
  Python and numpy floats are modelled as real numbers: rounding and overflow are not
  modelled. \<^verbatim>\<open>np.power\<close> can still leave the finite numbers on finite arguments
  (a zero base with a negative exponent gives \<^verbatim>\<open>inf\<close>, a negative base with a
  non-integer exponent gives \<^verbatim>\<open>nan\<close>), so its result, and the agent's \<^verbatim>\<open>epsilon\<close>
  that is computed from it, are values of \<open>npfloat\<close>.
\<close>

datatype npfloat = Fin real | PInf | NInf | NaN

text \<open>\<^verbatim>\<open>np.power(x, y)\<close> on two finite floats (C's \<^verbatim>\<open>pow\<close>).\<close>

definition np_power :: "real \<Rightarrow> real \<Rightarrow> npfloat" where
  "np_power x y =
     (if y = 0 then Fin 1
      else if 0 < x then Fin (x powr y)
      else if x = 0 then (if 0 < y then Fin 0 else PInf)
      else if y = of_int \<lfloor>y\<rfloor> then Fin (x powi \<lfloor>y\<rfloor>)
      else NaN)"

text \<open>\<^verbatim>\<open>a * b\<close> for a finite float \<open>a\<close>.\<close>

definition times_float :: "real \<Rightarrow> npfloat \<Rightarrow> npfloat" where
  "times_float a b =
     (case b of
        Fin v \<Rightarrow> Fin (a * v)
      | PInf \<Rightarrow> (if 0 < a then PInf else if a < 0 then NInf else NaN)
      | NInf \<Rightarrow> (if 0 < a then NInf else if a < 0 then PInf else NaN)
      | NaN \<Rightarrow> NaN)"

text \<open>\<^verbatim>\<open>u < e\<close> for a finite float \<open>u\<close>: every comparison with \<^verbatim>\<open>nan\<close> is false.\<close>

definition less_float :: "real \<Rightarrow> npfloat \<Rightarrow> bool" where
  "less_float u e =
     (case e of Fin v \<Rightarrow> u < v | PInf \<Rightarrow> True | NInf \<Rightarrow> False | NaN \<Rightarrow> False)"

text \<open>
  \<^verbatim>\<open>tf.argmax\<close> over a non-empty row: a left-to-right scan that moves to a new index
  only on a strictly greater value.
\<close>

fun argmax_scan :: "nat \<Rightarrow> real \<Rightarrow> nat \<Rightarrow> real list \<Rightarrow> nat" where
  "argmax_scan best v i [] = best"
| "argmax_scan best v i (x # xs) =
     (if v < x then argmax_scan i x (Suc i) xs else argmax_scan best v (Suc i) xs)"

fun argmax :: "real list \<Rightarrow> error + nat" where
  "argmax [] = Inl EmptyReduction"
| "argmax (x # xs) = Inr (argmax_scan 0 x 1 xs)"

text \<open>\<^verbatim>\<open>tf.reduce_max(rows, axis=-1)\<close>: the maximum of every row.\<close>

fun reduce_max :: "real list \<Rightarrow> error + real" where
  "reduce_max [] = Inl EmptyReduction"
| "reduce_max (x # xs) = Inr (fold max xs x)"

fun reduce_max_rows :: "real list list \<Rightarrow> error + real list" where
  "reduce_max_rows [] = Inr []"
| "reduce_max_rows (q # qs) =
     (case reduce_max q of
        Inl e \<Rightarrow> Inl e
      | Inr m \<Rightarrow> (case reduce_max_rows qs of Inl e \<Rightarrow> Inl e | Inr ms \<Rightarrow> Inr (m # ms)))"

text \<open>\<^verbatim>\<open>np.where(cond, xs, ys)\<close> on three sequences of one length.\<close>

definition np_where :: "bool list \<Rightarrow> real list \<Rightarrow> real list \<Rightarrow> real list" where
  "np_where cond xs ys = map (\<lambda>(c, x, y). if c then x else y) (zip cond (zip xs ys))"

text \<open>
  \<^verbatim>\<open>tf.reduce_mean\<close>. The mean of an empty tensor is \<^verbatim>\<open>nan\<close>; the code never takes
  it, since \<^verbatim>\<open>sample\<close> does not return an empty batch.
\<close>

definition reduce_mean :: "real list \<Rightarrow> real" where
  "reduce_mean xs = sum_list xs / real (length xs)"

section \<open>What the agent is given\<close>

text \<open>
  The multilayer perceptron (built by \<^verbatim>\<open>create_mlp\<close> of the module \<^verbatim>\<open>nn\<close>, which is
  not among the sources, on top of Keras), the optimizer, the gym environment and
  numpy's random generator are not code of \<^verbatim>\<open>DQN.py\<close>. They are parameters of the
  model, collected in one record:
  \<^item> \<open>create_mlp dims\<close>: the parameters of a new network; \<open>clone_model w\<close>: the
    parameters of a new network of the same architecture (Keras' \<^verbatim>\<open>clone_model\<close>
    initialises new weights); \<open>Adam lr\<close>: a new optimizer state;
  \<^item> \<open>call w state\<close>: the action values of the network with parameters \<open>w\<close> on one
    state (a batch is evaluated row by row);
  \<^item> \<open>apply_gradients opt w states actions y\<close>: one gradient step on the loss
    \<^verbatim>\<open>mean((y - Q(states)[actions])^2)\<close>, with \<open>y\<close> a constant: the new parameters
    and optimizer state;
  \<^item> \<open>env_reset\<close>, \<open>env_step\<close>: the environment, with its own state \<open>'e\<close>;
  \<^item> \<open>uniform\<close>, \<open>randint\<close>, \<open>choice\<close>: \<^verbatim>\<open>np.random.uniform()\<close>,
    \<^verbatim>\<open>np.random.randint(0, high)\<close> and \<^verbatim>\<open>np.random.choice(n, k, replace=False)\<close>,
    each from and to a generator state \<open>'g\<close>.
\<close>

record ('w, 'o, 's, 'e, 'g) externals =
  create_mlp :: "int list \<Rightarrow> 'w"
  clone_model :: "'w \<Rightarrow> 'w"
  Adam :: "real \<Rightarrow> 'o"
  call :: "'w \<Rightarrow> 's \<Rightarrow> real list"
  apply_gradients :: "'o \<Rightarrow> 'w \<Rightarrow> 's list \<Rightarrow> nat list \<Rightarrow> real list \<Rightarrow> 'w \<times> 'o"
  env_reset :: "'e \<Rightarrow> 's \<times> 'e"
  env_step :: "'e \<Rightarrow> nat \<Rightarrow> ('s \<times> real \<times> bool) \<times> 'e"
  uniform :: "'g \<Rightarrow> real \<times> 'g"
  randint :: "'g \<Rightarrow> int \<Rightarrow> nat \<times> 'g"
  choice :: "'g \<Rightarrow> nat \<Rightarrow> nat \<Rightarrow> nat list \<times> 'g"

text \<open>
  What numpy documents for \<^verbatim>\<open>choice(n, k, replace=False)\<close> with \<open>k \<le> n\<close>: \<open>k\<close>
  indices below \<open>n\<close>, no index twice.
\<close>

definition choice_contract :: "('w, 'o, 's, 'e, 'g) externals \<Rightarrow> bool" where
  "choice_contract W =
     (\<forall>g n k. k \<le> n \<longrightarrow>
        length (fst (choice W g n k)) = k \<and> distinct (fst (choice W g n k)) \<and>
        list_all (\<lambda>idx. idx < n) (fst (choice W g n k)))"

section \<open>Sampling from the replay buffer\<close>

text \<open>
  \<^verbatim>\<open>ExperienceReplay.sample\<close>. \<^verbatim>\<open>np.random.choice\<close> raises its ValueError for a negative
  size and for a size above the population (also for an empty population with a positive
  size); \<^verbatim>\<open>self.buffer[idx]\<close> raises IndexError on an index outside the deque; the
  five-name unpacking of \<^verbatim>\<open>zip(*[...])\<close> raises when no record was drawn.
  The buffer is only read: nothing is assigned to \<^verbatim>\<open>self.buffer\<close>, so the model
  returns no new buffer.
\<close>

type_synonym 's batch = "'s list \<times> nat list \<times> real list \<times> bool list \<times> 's list"

definition sample ::
  "('w, 'o, 's, 'e, 'g) externals \<Rightarrow> 's ExperienceReplay \<Rightarrow> int \<Rightarrow> 'g \<Rightarrow> error + ('s batch \<times> 'g)" where
  "sample W r batch_size' g =
     (if batch_size' < 0 then Inl NegativeDimensions
      else if int (length (buffer r)) < batch_size' then Inl LargerThanPopulation
      else
        let (indices, g') = choice W g (length (buffer r)) (nat batch_size')
        in if \<not> list_all (\<lambda>idx. idx < length (buffer r)) indices then Inl IndexError
           else
             let records = map (\<lambda>idx. buffer r ! idx) indices
             in if records = [] then Inl NotEnoughValuesToUnpack
                else Inr ((map exp_state records, map exp_action records,
                           map exp_reward records, map exp_done records,
                           map exp_new_state records), g'))"

section \<open>The agent\<close>

text \<open>
  The attributes that \<^verbatim>\<open>DeepQNetwork.__init__\<close> sets. \<^verbatim>\<open>q_target\<close> and
  \<^verbatim>\<open>target_frequency\<close> exist only when \<^verbatim>\<open>use_target\<close> holds.
\<close>

record ('w, 'o, 's) agent =
  dims :: "int list"
  q_net :: 'w
  use_target :: bool
  q_target :: "'w option"
  target_frequency :: "int option"
  epsilon_init :: real
  epsilon :: npfloat
  epsilon_decay :: real
  gamma :: real
  memory :: int
  replay :: "'s ExperienceReplay"
  start_updating :: int
  batch_size :: int
  descent_frequency :: int
  update_frequency :: int
  optimizer :: 'o

text \<open>
  \<^verbatim>\<open>DeepQNetwork.__init__\<close>. No parameter is validated; the only checks on the way are
  the deque's own, on its \<^verbatim>\<open>maxlen\<close>.
\<close>

definition DeepQNetwork_init ::
  "('w, 'o, 's, 'e, 'g) externals \<Rightarrow> int list \<Rightarrow> real \<Rightarrow> real \<Rightarrow> real \<Rightarrow> int \<Rightarrow> int \<Rightarrow>
   int \<Rightarrow> real \<Rightarrow> int \<Rightarrow> int \<Rightarrow> bool \<Rightarrow> int \<Rightarrow> error + ('w, 'o, 's) agent" where
  "DeepQNetwork_init W dims' epsilon' epsilon_decay' gamma' memory' start_updating' batch_size'
     learning_rate descent_frequency' update_frequency' use_target' target_frequency' =
     (let q = create_mlp W dims'
      in case ExperienceReplay_init memory' of
           Inl e \<Rightarrow> Inl e
         | Inr r \<Rightarrow>
             Inr \<lparr>dims = dims', q_net = q, use_target = use_target',
                  q_target = (if use_target' then Some (clone_model W q) else None),
                  target_frequency = (if use_target' then Some target_frequency' else None),
                  epsilon_init = epsilon', epsilon = Fin epsilon',
                  epsilon_decay = epsilon_decay', gamma = gamma',
                  memory = memory', replay = r, start_updating = start_updating',
                  batch_size = batch_size', descent_frequency = descent_frequency',
                  update_frequency = update_frequency',
                  optimizer = Adam W learning_rate\<rparr>)"

text \<open>
  \<^verbatim>\<open>DeepQNetwork.act\<close>. With \<^verbatim>\<open>evaluation\<close> set, \<^verbatim>\<open>and\<close> does not evaluate its
  second operand: no random number is drawn.
\<close>

definition act ::
  "('w, 'o, 's, 'e, 'g) externals \<Rightarrow> ('w, 'o, 's) agent \<Rightarrow> 's \<Rightarrow> bool \<Rightarrow> 'g \<Rightarrow> error + (nat \<times> 'g)" where
  "act W a state evaluation g =
     (let (explore, g1) =
            (if \<not> evaluation
             then (let (u, g') = uniform W g in (less_float u (epsilon a), g'))
             else (False, g))
      in if explore then
           (if dims a = [] then Inl IndexError
            else if last (dims a) \<le> 0 then Inl RandintRange
            else Inr (randint W g1 (last (dims a))))
         else
           (case argmax (call W (q_net a) state) of
              Inl e \<Rightarrow> Inl e
            | Inr action \<Rightarrow> Inr (action, g1)))"

text \<open>
  \<^verbatim>\<open>DeepQNetwork._epsilon\<close> (an Isabelle name cannot start with an underscore: \<open>p_\<close>
  stands for it). \<^verbatim>\<open>step / total_steps\<close> is Python's true division of two integers.
\<close>

definition p_epsilon :: "('w, 'o, 's) agent \<Rightarrow> int \<Rightarrow> int \<Rightarrow> error + npfloat" where
  "p_epsilon a step total_steps =
     (if total_steps = 0 then Inl ZeroDivisionError
      else Inr (times_float (epsilon_init a)
                  (np_power (epsilon_decay a) (real_of_int step / real_of_int total_steps))))"

text \<open>The agent-state invariant \<open>0 \<le> epsilon \<le> epsilon_init\<close> of the specification.\<close>

definition epsilon_invariant :: "('w, 'o, 's) agent \<Rightarrow> bool" where
  "epsilon_invariant a =
     (case epsilon a of Fin e \<Rightarrow> 0 \<le> e \<and> e \<le> epsilon_init a | PInf \<Rightarrow> False
      | NInf \<Rightarrow> False | NaN \<Rightarrow> False)"

section \<open>One episode\<close>

text \<open>
  The \<^verbatim>\<open>while not done\<close> loop of \<^verbatim>\<open>simulate\<close>. Nothing bounds it: it ends when the
  environment reports \<^verbatim>\<open>done\<close>, and a run that never ends is \<open>None\<close>. The agent
  \<open>a\<close> is only read (by \<^verbatim>\<open>act\<close>); the replay buffer \<open>r\<close> is what the loop
  changes. \<^verbatim>\<open>env.render()\<close> and \<^verbatim>\<open>env.show(...)\<close> draw pictures and are left out.
\<close>

partial_function (option) simulate_loop ::
  "('w, 'o, 's, 'e, 'g) externals \<Rightarrow> ('w, 'o, 's) agent \<Rightarrow> bool \<Rightarrow> 's ExperienceReplay \<Rightarrow>
   'e \<Rightarrow> 'g \<Rightarrow> 's \<Rightarrow> bool \<Rightarrow> nat \<Rightarrow> real \<Rightarrow> 's list \<Rightarrow>
   (error + ((nat \<times> real \<times> 's list) \<times> 's ExperienceReplay \<times> 'e \<times> 'g)) option" where
  "simulate_loop W a evaluation r env g state done iters total_rwd states =
     (if done then Some (Inr ((iters, total_rwd, states), r, env, g))
      else
        (case act W a state evaluation g of
           Inl e \<Rightarrow> Some (Inl e)
         | Inr (action, g1) \<Rightarrow>
             (case env_step W env action of
                ((new_state, reward, done'), env1) \<Rightarrow>
                  simulate_loop W a evaluation
                    (append_replay r (Experience state action reward done' new_state))
                    env1 g1 new_state done' (iters + 1) (total_rwd + reward)
                    (states @ [new_state]))))"

declare simulate_loop.simps [code]

definition simulate ::
  "('w, 'o, 's, 'e, 'g) externals \<Rightarrow> ('w, 'o, 's) agent \<Rightarrow> 'e \<Rightarrow> 'g \<Rightarrow> bool \<Rightarrow> bool \<Rightarrow>
   (error + ((nat \<times> real \<times> 's list) \<times> 's ExperienceReplay \<times> 'e \<times> 'g)) option" where
  "simulate W a env g render evaluation =
     (case env_reset W env of
        (state, env0) \<Rightarrow> simulate_loop W a evaluation (replay a) env0 g state False 0 0 [])"

section \<open>The weight update\<close>

text \<open>
  The target network's synchronisation at descent index \<open>updates\<close>:
  \<^verbatim>\<open>if self.use_target and updates % self.target_frequency == 0:
      self.q_target.set_weights(self.q_net.get_weights())\<close>
\<close>

definition sync_target :: "('w, 'o, 's) agent \<Rightarrow> int \<Rightarrow> error + ('w, 'o, 's) agent" where
  "sync_target a updates =
     (if use_target a then
        (case target_frequency a of
           None \<Rightarrow> Inl AttributeError
         | Some tf \<Rightarrow>
             if tf = 0 then Inl ZeroDivisionError
             else if updates mod tf = 0 then
               (case q_target a of
                  None \<Rightarrow> Inl AttributeError
                | Some old \<Rightarrow> Inr (a\<lparr>q_target := Some (q_net a)\<rparr>))
             else Inr a)
      else Inr a)"

text \<open>\<^verbatim>\<open>[q[act] for q, act in zip(self.q_net(states), actions)]\<close>\<close>

fun this_Q :: "real list list \<Rightarrow> nat list \<Rightarrow> error + real list" where
  "this_Q (q # qs) (action # actions) =
     (if action < length q then
        (case this_Q qs actions of Inl e \<Rightarrow> Inl e | Inr rest \<Rightarrow> Inr (q ! action # rest))
      else Inl IndexError)"
| "this_Q qs actions = Inr []"

text \<open>
  \<^verbatim>\<open>next_Q\<close>: the row maxima of the target network on the new states when
  \<^verbatim>\<open>use_target\<close> holds, of the online network otherwise.
\<close>

definition next_Q ::
  "('w, 'o, 's, 'e, 'g) externals \<Rightarrow> ('w, 'o, 's) agent \<Rightarrow> 's list \<Rightarrow> error + real list" where
  "next_Q W a new_states =
     (if use_target a then
        (case q_target a of
           None \<Rightarrow> Inl AttributeError
         | Some t \<Rightarrow> reduce_max_rows (map (call W t) new_states))
      else reduce_max_rows (map (call W (q_net a)) new_states))"

text \<open>
  The first part of one descent iteration, up to the regression target:
  the batch is sampled, the target network is synchronised if it is due, then
  \<^verbatim>\<open>this_Q\<close>, \<^verbatim>\<open>next_Q\<close> and
  \<^verbatim>\<open>y = np.where(dones, rewards, np.array(rewards) + gamma * next_Q)\<close>.
  It returns the batch, \<^verbatim>\<open>this_Q\<close>, \<^verbatim>\<open>y\<close>, the agent and the generator.
\<close>

definition bellman_batch ::
  "('w, 'o, 's, 'e, 'g) externals \<Rightarrow> real \<Rightarrow> ('w, 'o, 's) agent \<Rightarrow> int \<Rightarrow> 'g \<Rightarrow>
   error + ('s batch \<times> real list \<times> real list \<times> ('w, 'o, 's) agent \<times> 'g)" where
  "bellman_batch W gamma' a updates g =
     (case sample W (replay a) (batch_size a) g of
        Inl e \<Rightarrow> Inl e
      | Inr ((states, actions, rewards, dones, new_states), g1) \<Rightarrow>
          (case sync_target a updates of
             Inl e \<Rightarrow> Inl e
           | Inr a1 \<Rightarrow>
               (case this_Q (map (call W (q_net a1)) states) actions of
                  Inl e \<Rightarrow> Inl e
                | Inr tq \<Rightarrow>
                    (case next_Q W a1 new_states of
                       Inl e \<Rightarrow> Inl e
                     | Inr nq \<Rightarrow>
                         Inr ((states, actions, rewards, dones, new_states), tq,
                              np_where dones rewards
                                (map (\<lambda>(reward, q). reward + gamma' * q) (zip rewards nq)),
                              a1, g1)))))"

text \<open>
  One whole descent iteration: the loss
  \<^verbatim>\<open>tf.reduce_mean(tf.math.square(y - this_Q))\<close> and one optimizer step on the online
  network's variables.
\<close>

definition update_step ::
  "('w, 'o, 's, 'e, 'g) externals \<Rightarrow> real \<Rightarrow> ('w, 'o, 's) agent \<Rightarrow> int \<Rightarrow> 'g \<Rightarrow>
   error + (real \<times> ('w, 'o, 's) agent \<times> 'g)" where
  "update_step W gamma' a updates g =
     (case bellman_batch W gamma' a updates g of
        Inl e \<Rightarrow> Inl e
      | Inr ((states, actions, rewards, dones, new_states), tq, y, a1, g1) \<Rightarrow>
          (let loss = reduce_mean (map (\<lambda>(yi, qi). (yi - qi)\<^sup>2) (zip y tq));
               (w, opt) = apply_gradients W (optimizer a1) (q_net a1) states actions y
           in Inr (loss, a1\<lparr>q_net := w, optimizer := opt\<rparr>, g1)))"

text \<open>
  \<^verbatim>\<open>for updates in range(self.descent_frequency)\<close>, with the last loss (\<open>None\<close> while
  \<^verbatim>\<open>loss\<close> is unbound).
\<close>

fun descent_loop ::
  "('w, 'o, 's, 'e, 'g) externals \<Rightarrow> real \<Rightarrow> int list \<Rightarrow> ('w, 'o, 's) agent \<Rightarrow> 'g \<Rightarrow>
   real option \<Rightarrow> error + (real option \<times> ('w, 'o, 's) agent \<times> 'g)" where
  "descent_loop W gamma' [] a g loss = Inr (loss, a, g)"
| "descent_loop W gamma' (updates # rest) a g loss =
     (case update_step W gamma' a updates g of
        Inl e \<Rightarrow> Inl e
      | Inr (l, a', g') \<Rightarrow> descent_loop W gamma' rest a' g' (Some l))"

text \<open>\<^verbatim>\<open>DeepQNetwork._update_weights\<close>\<close>

definition p_update_weights ::
  "('w, 'o, 's, 'e, 'g) externals \<Rightarrow> ('w, 'o, 's) agent \<Rightarrow> real \<Rightarrow> 'g \<Rightarrow>
   error + (real \<times> ('w, 'o, 's) agent \<times> 'g)" where
  "p_update_weights W a gamma' g =
     (case descent_loop W gamma' (map int [0..<nat (descent_frequency a)]) a g None of
        Inl e \<Rightarrow> Inl e
      | Inr (None, a', g') \<Rightarrow> Inl UnboundLocalError
      | Inr (Some loss, a', g') \<Rightarrow> Inr (loss, a', g'))"

section \<open>Training\<close>

text \<open>
  The body of \<^verbatim>\<open>for episode in range(episodes)\<close> in \<^verbatim>\<open>train\<close>. The argument
  \<^verbatim>\<open>render=(episode % render_frequency == 0)\<close> is evaluated before \<^verbatim>\<open>simulate\<close> is
  called; \<^verbatim>\<open>len(self.replay) >= self.start_updating and episode % self.update_frequency == 0\<close>
  evaluates its second operand only when the first holds.
\<close>

definition train_episode ::
  "('w, 'o, 's, 'e, 'g) externals \<Rightarrow> int \<Rightarrow> int \<Rightarrow> int \<Rightarrow> ('w, 'o, 's) agent \<Rightarrow> 'e \<Rightarrow> 'g \<Rightarrow>
   (error + (('w, 'o, 's) agent \<times> 'e \<times> 'g)) option" where
  "train_episode W episodes render_frequency episode a env g =
     (case p_epsilon a episode episodes of
        Inl e \<Rightarrow> Some (Inl e)
      | Inr eps \<Rightarrow>
          (let a1 = a\<lparr>epsilon := eps\<rparr>
           in if render_frequency = 0 then Some (Inl ZeroDivisionError)
              else
                (case simulate W a1 env g (episode mod render_frequency = 0) False of
                   None \<Rightarrow> None
                 | Some (Inl e) \<Rightarrow> Some (Inl e)
                 | Some (Inr (result, r, env1, g1)) \<Rightarrow>
                     (let a2 = a1\<lparr>replay := r\<rparr>
                      in if start_updating a2 \<le> int (len (replay a2)) then
                           (if update_frequency a2 = 0 then Some (Inl ZeroDivisionError)
                            else if episode mod update_frequency a2 = 0 then
                              (case p_update_weights W a2 (gamma a2) g1 of
                                 Inl e \<Rightarrow> Some (Inl e)
                               | Inr (loss, a3, g2) \<Rightarrow> Some (Inr (a3, env1, g2)))
                            else Some (Inr (a2, env1, g1)))
                         else Some (Inr (a2, env1, g1))))))"

fun train_loop ::
  "('w, 'o, 's, 'e, 'g) externals \<Rightarrow> int \<Rightarrow> int \<Rightarrow> int list \<Rightarrow> ('w, 'o, 's) agent \<Rightarrow> 'e \<Rightarrow> 'g \<Rightarrow>
   (error + (('w, 'o, 's) agent \<times> 'e \<times> 'g)) option" where
  "train_loop W episodes render_frequency [] a env g = Some (Inr (a, env, g))"
| "train_loop W episodes render_frequency (episode # rest) a env g =
     (case train_episode W episodes render_frequency episode a env g of
        None \<Rightarrow> None
      | Some (Inl e) \<Rightarrow> Some (Inl e)
      | Some (Inr (a', env', g')) \<Rightarrow> train_loop W episodes render_frequency rest a' env' g')"

text \<open>\<^verbatim>\<open>DeepQNetwork.train\<close>\<close>

definition train ::
  "('w, 'o, 's, 'e, 'g) externals \<Rightarrow> ('w, 'o, 's) agent \<Rightarrow> 'e \<Rightarrow> 'g \<Rightarrow> int \<Rightarrow> int \<Rightarrow>
   (error + (('w, 'o, 's) agent \<times> 'e \<times> 'g)) option" where
  "train W a env g episodes render_frequency =
     train_loop W episodes render_frequency (map int [0..<nat episodes]) a env g"

section \<open>Persistence\<close>

text \<open>
  The file system is a map from paths to contents \<open>'b\<close>. Keras' weight files and
  \<^verbatim>\<open>pickle\<close> are library code, taken as parameters: \<open>save_weights\<close> writes the
  parameters of a network of the given layer widths, \<open>restore_weights\<close> gets the
  layer widths of the network that loads and answers \<open>None\<close> when the saved
  parameters do not fit them; \<open>pickle_load\<close> answers \<open>None\<close> on bytes that are no
  pickled buffer.
\<close>

record ('w, 's, 'b) persistence =
  save_weights :: "int list \<Rightarrow> 'w \<Rightarrow> 'b"
  restore_weights :: "int list \<Rightarrow> 'b \<Rightarrow> 'w option"
  pickle_dump :: "'s ExperienceReplay \<Rightarrow> 'b"
  pickle_load :: "'b \<Rightarrow> 's ExperienceReplay option"

text \<open>
  What the two libraries promise: reading back what was written gives it back (the
  weights into a network of the layer widths they were saved from).
\<close>

definition persistence_contract :: "('w, 's, 'b) persistence \<Rightarrow> bool" where
  "persistence_contract P =
     ((\<forall>ds w. restore_weights P ds (save_weights P ds w) = Some w) \<and>
      (\<forall>r. pickle_load P (pickle_dump P r) = Some r))"

definition save ::
  "('w, 's, 'b) persistence \<Rightarrow> ('w, 'o, 's) agent \<Rightarrow> string \<Rightarrow> (string \<rightharpoonup> 'b) \<Rightarrow> (string \<rightharpoonup> 'b)" where
  "save P a path fs =
     (let fs1 = fs(path \<mapsto> save_weights P (dims a) (q_net a))
      in fs1(path @ ''experience.pk'' \<mapsto> pickle_dump P (replay a)))"

definition load ::
  "('w, 's, 'b) persistence \<Rightarrow> ('w, 'o, 's) agent \<Rightarrow> string \<Rightarrow> (string \<rightharpoonup> 'b) \<Rightarrow>
   error + ('w, 'o, 's) agent" where
  "load P a path fs =
     (case fs path of
        None \<Rightarrow> Inl FileNotFoundError
      | Some wb \<Rightarrow>
          (case restore_weights P (dims a) wb of
             None \<Rightarrow> Inl DimensionMismatch
           | Some w \<Rightarrow>
               (case fs (path @ ''experience.pk'') of
                  None \<Rightarrow> Inl FileNotFoundError
                | Some rb \<Rightarrow>
                    (case pickle_load P rb of
                       None \<Rightarrow> Inl UnpicklingError
                     | Some r \<Rightarrow> Inr (a\<lparr>q_net := w, replay := r\<rparr>)))))"

definition clear_experience :: "('w, 'o, 's) agent \<Rightarrow> error + ('w, 'o, 's) agent" where
  "clear_experience a =
     (case ExperienceReplay_init (memory a) of
        Inl e \<Rightarrow> Inl e
      | Inr r \<Rightarrow> Inr (a\<lparr>replay := r\<rparr>))"

section \<open>A small concrete instance\<close>

text \<open>
  A concrete network, environment and random generator, for running the model:
  the network with parameters \<open>w\<close> values a state \<open>s\<close> at \<open>[s, w]\<close>, a gradient
  step adds one to the parameters, a cloned model starts at parameters \<open>2\<close>; every
  episode of the environment lasts two steps with reward \<open>1\<close>; the generator always
  draws \<open>1/2\<close>, action \<open>0\<close> and the first \<open>k\<close> indices.
\<close>

definition demo_world :: "(nat, unit, nat, nat, nat) externals" where
  "demo_world =
     \<lparr>create_mlp = (\<lambda>ds. 5), clone_model = (\<lambda>w. 2), Adam = (\<lambda>lr. ()),
      call = (\<lambda>w s. [real s, real w]),
      apply_gradients = (\<lambda>opt w states actions y. (Suc w, opt)),
      env_reset = (\<lambda>e. (0, 0)),
      env_step = (\<lambda>e action. ((Suc e, 1, 2 \<le> Suc e), Suc e)),
      uniform = (\<lambda>g. (1 / 2, Suc g)),
      randint = (\<lambda>g high. (0, Suc g)),
      choice = (\<lambda>g n k. ([0..<k], Suc g))\<rparr>"

text \<open>
  The agent that
  \<^verbatim>\<open>DeepQNetwork([2, 2], 0.25, 0.25, 0.9, 3, 2, 2, 0.001, 1, 1, True, 3)\<close> builds in
  that world.
\<close>

definition demo_agent :: "(nat, unit, nat) agent" where
  "demo_agent =
     \<lparr>dims = [2, 2], q_net = 5, use_target = True, q_target = Some 2,
      target_frequency = Some 3, epsilon_init = 1 / 4, epsilon = Fin (1 / 4),
      epsilon_decay = 1 / 4, gamma = 9 / 10, memory = 3,
      replay = \<lparr>maxlen = 3, buffer = []\<rparr>, start_updating = 2, batch_size = 2,
      descent_frequency = 1, update_frequency = 1, optimizer = ()\<rparr>"

text \<open>A buffer of two transitions, the second one terminal.\<close>

definition demo_replay :: "nat ExperienceReplay" where
  "demo_replay =
     \<lparr>maxlen = 3, buffer = [Experience 0 0 1 False 1, Experience 1 1 4 True 2]\<rparr>"

text \<open>A persistence layer that stores values as they are.\<close>

datatype demo_file = Weights "int list" nat | Pickle "nat ExperienceReplay"

definition demo_persistence :: "(nat, nat, demo_file) persistence" where
  "demo_persistence =
     \<lparr>save_weights = Weights,
      restore_weights =
        (\<lambda>ds b. case b of Weights saved w \<Rightarrow> (if saved = ds then Some w else None)
                | Pickle r \<Rightarrow> None),
      pickle_dump = Pickle,
      pickle_load = (\<lambda>b. case b of Weights saved w \<Rightarrow> None | Pickle r \<Rightarrow> Some r)\<rparr>"

section \<open>The replay buffer keeps the newest records\<close>

lemma maxlen_append [simp]: "maxlen (append_replay r x) = maxlen r"
  by (simp add: append_replay_def Let_def)

lemma tl_as_drop: "tl ys = drop 1 ys"
  by (simp add: drop_Suc)

lemma buffer_append_window:
  assumes "length (buffer r) \<le> maxlen r"
  shows "buffer (append_replay r x) = drop (Suc (length (buffer r)) - maxlen r) (buffer r @ [x])"
proof (cases "maxlen r < Suc (length (buffer r))")
  case True
  with assms have one: "Suc (length (buffer r)) - maxlen r = 1" by arith
  from True have "buffer (append_replay r x) = tl (buffer r @ [x])"
    by (simp add: append_replay_def Let_def)
  then show ?thesis
    by (simp only: one tl_as_drop)
next
  case False
  then show ?thesis
    by (simp add: append_replay_def Let_def)
qed

lemma append_all_window:
  assumes "length (buffer r) \<le> maxlen r"
  shows "maxlen (append_all r xs) = maxlen r \<and>
         buffer (append_all r xs) =
           drop (length (buffer r) + length xs - maxlen r) (buffer r @ xs)"
proof (induction xs rule: rev_induct)
  case Nil
  from assms show ?case by (simp add: append_all_def)
next
  case (snoc x xs)
  let ?r' = "append_all r xs"
  let ?n = "length (buffer r) + length xs"
  have step: "append_all r (xs @ [x]) = append_replay ?r' x"
    by (simp add: append_all_def)
  from snoc have m: "maxlen ?r' = maxlen r"
    and b: "buffer ?r' = drop (?n - maxlen r) (buffer r @ xs)"
    by simp_all
  have l: "length (buffer ?r') = min ?n (maxlen r)"
    by (simp add: b)
  then have bound: "length (buffer ?r') \<le> maxlen ?r'"
    by (simp add: m)
  have inside: "?n - maxlen r \<le> length (buffer r @ xs)"
    by simp
  have "buffer (append_replay ?r' x) =
          drop (Suc (length (buffer ?r')) - maxlen ?r') (buffer ?r' @ [x])"
    by (rule buffer_append_window [OF bound])
  also have "\<dots> = drop (Suc (min ?n (maxlen r)) - maxlen r) (buffer ?r' @ [x])"
    by (simp only: l m)
  also have "buffer ?r' @ [x] = drop (?n - maxlen r) ((buffer r @ xs) @ [x])"
    using inside by (simp only: b drop_append) simp
  also have "drop (Suc (min ?n (maxlen r)) - maxlen r) (drop (?n - maxlen r) ((buffer r @ xs) @ [x])) =
             drop ((Suc (min ?n (maxlen r)) - maxlen r) + (?n - maxlen r)) ((buffer r @ xs) @ [x])"
    by (simp only: drop_drop)
  also have "(Suc (min ?n (maxlen r)) - maxlen r) + (?n - maxlen r) = Suc ?n - maxlen r"
    by arith
  finally have "buffer (append_replay ?r' x) = drop (Suc ?n - maxlen r) ((buffer r @ xs) @ [x])" .
  then show ?case
    by (simp add: step m)
qed

text \<open>
  Claim C2. Starting from the buffer that \<^verbatim>\<open>ExperienceReplay(capacity)\<close> builds, with
  \<open>capacity \<ge> 1\<close>, after any sequence \<open>xs\<close> of \<^verbatim>\<open>append\<close> calls (also one longer
  than the capacity) the buffer holds at most \<open>capacity\<close> records, and they are
  exactly the last \<open>min (length xs) capacity\<close> appended records in insertion order:
  the oldest ones were evicted first. The bound holds after every prefix of the calls,
  that is, at every moment.
\<close>

theorem replay_append_fifo:
  assumes "1 \<le> capacity" "ExperienceReplay_init capacity = Inr r"
  shows "len (append_all r xs) \<le> nat capacity \<and>
         (\<forall>n. len (append_all r (take n xs)) \<le> nat capacity) \<and>
         len (append_all r xs) = min (length xs) (nat capacity) \<and>
         buffer (append_all r xs) = drop (length xs - min (length xs) (nat capacity)) xs"
proof -
  from assms have r: "r = \<lparr>maxlen = nat capacity, buffer = []\<rparr>"
    by (simp add: ExperienceReplay_init_def sys_maxsize_def split: if_splits)
  then have start: "length (buffer r) \<le> maxlen r"
    by simp
  have b: "buffer (append_all r ys) = drop (length ys - nat capacity) ys" for ys
    using append_all_window [OF start, of ys] by (simp add: r)
  have e: "length xs - min (length xs) (nat capacity) = length xs - nat capacity"
    by arith
  have "len (append_all r ys) \<le> nat capacity" for ys
    by (simp add: len_def b)
  moreover have "len (append_all r xs) = min (length xs) (nat capacity)"
    by (simp add: len_def b)
  ultimately show ?thesis
    by (simp add: b e)
qed

theorem replay_append_fifo_witness:
  "(1::int) \<le> 3 \<and>
   ExperienceReplay_init 3 = Inr \<lparr>maxlen = 3, buffer = ([] :: nat Experience list)\<rparr> \<and>
   buffer (append_all \<lparr>maxlen = 3, buffer = []\<rparr>
     [Experience (0::nat) 0 1 False 1, Experience 1 0 2 False 2,
      Experience 2 0 3 False 3, Experience 3 0 4 True 4]) =
   [Experience 1 0 2 False 2, Experience 2 0 3 False 3, Experience 3 0 4 True 4] \<and>
   len (append_all \<lparr>maxlen = 3, buffer = []\<rparr>
     [Experience (0::nat) 0 1 False 1, Experience 1 0 2 False 2,
      Experience 2 0 3 False 3, Experience 3 0 4 True 4]) = 3"
proof -
  have h: "(1::int) \<le> 3"
    by simp
  have i: "ExperienceReplay_init 3 = Inr \<lparr>maxlen = 3, buffer = ([] :: nat Experience list)\<rparr>"
    by (simp add: ExperienceReplay_init_def sys_maxsize_def)
  show ?thesis
    using h i replay_append_fifo [OF h i, of
      "[Experience (0::nat) 0 1 False 1, Experience 1 0 2 False 2,
        Experience 2 0 3 False 3, Experience 3 0 4 True 4]"]
    by simp
qed

section \<open>Sampling\<close>

text \<open>
  When \<^verbatim>\<open>sample\<close> returns, its five sequences are the fields of the records at the
  indices that \<^verbatim>\<open>np.random.choice\<close> drew, in the order drawn.
\<close>

lemma sample_Inr:
  assumes "sample W r k g = Inr ((states, actions, rewards, dones, new_states), g')"
  shows "\<exists>indices. (indices, g') = choice W g (length (buffer r)) (nat k) \<and>
           0 \<le> k \<and> k \<le> int (length (buffer r)) \<and> indices \<noteq> [] \<and>
           list_all (\<lambda>idx. idx < length (buffer r)) indices \<and>
           states = map (\<lambda>idx. exp_state (buffer r ! idx)) indices \<and>
           actions = map (\<lambda>idx. exp_action (buffer r ! idx)) indices \<and>
           rewards = map (\<lambda>idx. exp_reward (buffer r ! idx)) indices \<and>
           dones = map (\<lambda>idx. exp_done (buffer r ! idx)) indices \<and>
           new_states = map (\<lambda>idx. exp_new_state (buffer r ! idx)) indices"
  using assms
  by (auto simp: sample_def Let_def comp_def split: if_splits prod.splits)

text \<open>
  For \<open>1 \<le> k \<le> len\<close> and a generator that keeps numpy's contract, \<^verbatim>\<open>sample(k)\<close>
  returns the records at \<open>k\<close> pairwise different indices of the buffer.
\<close>

lemma sample_ok:
  assumes "choice_contract W" "1 \<le> k" "k \<le> int (len r)"
  shows "\<exists>indices g'.
           length indices = nat k \<and> distinct indices \<and>
           (\<forall>idx \<in> set indices. idx < len r) \<and>
           sample W r k g =
             Inr ((map (\<lambda>idx. exp_state (buffer r ! idx)) indices,
                   map (\<lambda>idx. exp_action (buffer r ! idx)) indices,
                   map (\<lambda>idx. exp_reward (buffer r ! idx)) indices,
                   map (\<lambda>idx. exp_done (buffer r ! idx)) indices,
                   map (\<lambda>idx. exp_new_state (buffer r ! idx)) indices), g')"
proof -
  obtain indices g' where c: "choice W g (length (buffer r)) (nat k) = (indices, g')"
    by (cases "choice W g (length (buffer r)) (nat k)")
  from assms have "nat k \<le> length (buffer r)"
    by (simp add: len_def)
  with assms(1) have "length (fst (choice W g (length (buffer r)) (nat k))) = nat k"
    and "distinct (fst (choice W g (length (buffer r)) (nat k)))"
    and "list_all (\<lambda>idx. idx < length (buffer r)) (fst (choice W g (length (buffer r)) (nat k)))"
    unfolding choice_contract_def by blast+
  with c have l: "length indices = nat k" and d: "distinct indices"
    and b: "list_all (\<lambda>idx. idx < length (buffer r)) indices"
    by simp_all
  from l assms(2) have ne: "indices \<noteq> []"
    by auto
  from assms c b ne have
    "sample W r k g =
       Inr ((map (\<lambda>idx. exp_state (buffer r ! idx)) indices,
             map (\<lambda>idx. exp_action (buffer r ! idx)) indices,
             map (\<lambda>idx. exp_reward (buffer r ! idx)) indices,
             map (\<lambda>idx. exp_done (buffer r ! idx)) indices,
             map (\<lambda>idx. exp_new_state (buffer r ! idx)) indices), g')"
    by (simp add: sample_def len_def comp_def)
  with l d b show ?thesis
    by (auto simp: list_all_iff len_def)
qed

text \<open>Asking for more records than the buffer holds fails.\<close>

lemma sample_too_many:
  assumes "int (len r) < k"
  shows "sample W r k g = Inl LargerThanPopulation"
  using assms by (simp add: sample_def len_def)

text \<open>
  An empty batch is never returned: with \<open>k = 0\<close> no index is drawn, \<^verbatim>\<open>zip(*[])\<close>
  yields nothing, and the unpacking into five names raises.
\<close>

lemma sample_zero:
  assumes "choice_contract W"
  shows "sample W r 0 g = Inl NotEnoughValuesToUnpack"
proof -
  from assms have "length (fst (choice W g (length (buffer r)) 0)) = 0"
    unfolding choice_contract_def by blast
  then obtain g' where "choice W g (length (buffer r)) 0 = ([], g')"
    by (cases "choice W g (length (buffer r)) 0") simp
  then show ?thesis
    by (simp add: sample_def)
qed

text \<open>
  Claim C3 says that \<^verbatim>\<open>sample(k)\<close> returns \<open>k\<close> distinct records for every
  \<open>k \<le> len\<close>. For \<open>k = 0\<close> on a buffer of two records the code returns no batch,
  not even an empty one: it raises the ValueError of the failed unpacking. (For
  \<open>1 \<le> k \<le> len\<close> and for \<open>k > len\<close> the code does what the claim says: lemmas
  \<open>sample_ok\<close> and \<open>sample_too_many\<close>.)
\<close>

theorem sample_empty_batch_raises:
  "len demo_replay = 2 \<and> sample demo_world demo_replay 0 0 = Inl NotEnoughValuesToUnpack"
  by (simp add: sample_def len_def demo_world_def demo_replay_def)

section \<open>The regression target\<close>

lemma reduce_max_Inr:
  assumes "reduce_max q = Inr m"
  shows "q \<noteq> [] \<and> m = Max (set q)"
proof (cases q)
  case Nil
  with assms show ?thesis by simp
next
  case (Cons x xs)
  have "fold max xs x = Max (set (x # xs))"
    by (rule Max.set_eq_fold [symmetric])
  with assms Cons show ?thesis by simp
qed

lemma reduce_max_rows_Inr:
  "reduce_max_rows qs = Inr ms \<Longrightarrow>
   length ms = length qs \<and> (\<forall>i<length qs. qs ! i \<noteq> [] \<and> ms ! i = Max (set (qs ! i)))"
proof (induction qs arbitrary: ms)
  case Nil
  then show ?case by simp
next
  case (Cons q qs)
  from Cons.prems obtain m ms' where m: "reduce_max q = Inr m"
    and r: "reduce_max_rows qs = Inr ms'" and ms: "ms = m # ms'"
    by (auto split: sum.splits)
  from Cons.IH [OF r] reduce_max_Inr [OF m] show ?case
    by (auto simp: ms nth_Cons split: nat.splits)
qed

lemma next_Q_Inr:
  assumes "next_Q W a new_states = Inr nq"
  shows "length nq = length new_states \<and>
         (\<forall>i<length new_states.
            nq ! i = Max (set (call W (if use_target a then the (q_target a) else q_net a)
                                 (new_states ! i))))"
proof (cases "use_target a")
  case True
  with assms obtain t where t: "q_target a = Some t"
    and r: "reduce_max_rows (map (call W t) new_states) = Inr nq"
    by (auto simp: next_Q_def split: option.splits)
  from reduce_max_rows_Inr [OF r] show ?thesis
    by (simp add: True t)
next
  case False
  with assms have r: "reduce_max_rows (map (call W (q_net a)) new_states) = Inr nq"
    by (simp add: next_Q_def)
  from reduce_max_rows_Inr [OF r] show ?thesis
    by (simp add: False)
qed

lemma np_where_nth:
  assumes "length cond = length xs" "length ys = length xs" "i < length xs"
  shows "length (np_where cond xs ys) = length xs \<and>
         np_where cond xs ys ! i = (if cond ! i then xs ! i else ys ! i)"
  using assms by (simp add: np_where_def)

text \<open>
  What an iteration that reaches the target \<open>y\<close> has computed.
\<close>

lemma bellman_batch_Inr:
  assumes "bellman_batch W gamma' a updates g =
             Inr ((states, actions, rewards, dones, new_states), tq, y, a1, g1)"
    and "i < length rewards"
  shows "sample W (replay a) (batch_size a) g =
           Inr ((states, actions, rewards, dones, new_states), g1) \<and>
         length dones = length rewards \<and> length new_states = length rewards \<and>
         length y = length rewards \<and>
         y ! i =
           (if dones ! i then rewards ! i
            else rewards ! i +
                 gamma' * Max (set (call W (if use_target a then the (q_target a1) else q_net a)
                                      (new_states ! i))))"
proof -
  from assms(1) obtain nq where
    s: "sample W (replay a) (batch_size a) g =
          Inr ((states, actions, rewards, dones, new_states), g1)"
    and sy: "sync_target a updates = Inr a1"
    and nq: "next_Q W a1 new_states = Inr nq"
    and y: "y = np_where dones rewards (map (\<lambda>(reward, q). reward + gamma' * q) (zip rewards nq))"
    by (auto simp: bellman_batch_def split: sum.splits prod.splits)
  from sample_Inr [OF s] have ld: "length dones = length rewards"
    and ln: "length new_states = length rewards"
    by auto
  from sy have ut: "use_target a1 = use_target a" and qn: "q_net a1 = q_net a"
    by (auto simp: sync_target_def split: if_splits option.splits)
  from next_Q_Inr [OF nq] have lq: "length nq = length rewards"
    and q: "nq ! i = Max (set (call W (if use_target a then the (q_target a1) else q_net a)
                                 (new_states ! i)))"
    using assms(2) by (simp_all add: ln ut qn)
  have lz: "length (map (\<lambda>(reward, q). reward + gamma' * q) (zip rewards nq)) = length rewards"
    by (simp add: lq)
  from np_where_nth [OF ld lz assms(2)] have "length y = length rewards"
    and "y ! i = (if dones ! i then rewards ! i
                  else map (\<lambda>(reward, q). reward + gamma' * q) (zip rewards nq) ! i)"
    by (simp_all add: y)
  with s ld ln q assms(2) lq show ?thesis
    by simp
qed

text \<open>
  Row maxima exist for non-empty rows, so \<^verbatim>\<open>next_Q\<close> returns whenever the network it
  reads is there and gives every new state at least one action value.
\<close>

lemma reduce_max_rows_total:
  assumes "\<forall>q \<in> set qs. q \<noteq> []"
  shows "\<exists>ms. reduce_max_rows qs = Inr ms"
  using assms
proof (induction qs)
  case Nil
  then show ?case by simp
next
  case (Cons q qs)
  then obtain x xs ms where "q = x # xs" "reduce_max_rows qs = Inr ms"
    by (cases q) auto
  then show ?case by simp
qed

lemma next_Q_total:
  assumes "use_target a \<longrightarrow> q_target a \<noteq> None"
    and "\<forall>s \<in> set new_states.
           call W (if use_target a then the (q_target a) else q_net a) s \<noteq> []"
  shows "\<exists>nq. next_Q W a new_states = Inr nq"
proof (cases "use_target a")
  case True
  with assms(1) obtain t where t: "q_target a = Some t"
    by auto
  from assms(2) True t have "\<forall>q \<in> set (map (call W t) new_states). q \<noteq> []"
    by simp
  from reduce_max_rows_total [OF this] True t show ?thesis
    by (simp add: next_Q_def)
next
  case False
  with assms(2) have "\<forall>q \<in> set (map (call W (q_net a)) new_states). q \<noteq> []"
    by simp
  from reduce_max_rows_total [OF this] False show ?thesis
    by (simp add: next_Q_def)
qed

lemma upt_two: "[0..<2] = [0, 1]"
  by (simp add: numeral_2_eq_2)

text \<open>
  Claim C1. In a descent iteration of \<^verbatim>\<open>_update_weights\<close> that gets as far as the target
  \<open>y\<close>, the batch is the one \<^verbatim>\<open>sample\<close> returned, \<open>y\<close> has one entry per sampled
  transition, and the entry of transition \<open>i\<close> is its reward when its \<^verbatim>\<open>done\<close> flag
  is set (whatever \<open>gamma\<close> and the network say), and
  \<open>reward + gamma * max\<close> of the action values of the new state otherwise, taken from
  the target network (as it is after the synchronisation of this iteration) when
  \<^verbatim>\<open>use_target\<close> holds and from the online network when it does not. And the
  iteration does get that far, with and without a target network: whenever the
  sampling, the synchronisation and \<^verbatim>\<open>this_Q\<close> succeed, the network that \<^verbatim>\<open>next_Q\<close>
  reads exists and gives every sampled new state at least one action value, the
  iteration produces this \<open>y\<close>.
\<close>

theorem bellman_target:
  "(bellman_batch W gamma' a updates g =
      Inr ((states, actions, rewards, dones, new_states), tq, y, a1, g1) \<and>
    i < length rewards
    \<longrightarrow> sample W (replay a) (batch_size a) g =
          Inr ((states, actions, rewards, dones, new_states), g1) \<and>
        length dones = length rewards \<and> length new_states = length rewards \<and>
        length y = length rewards \<and>
        y ! i =
          (if dones ! i then rewards ! i
           else rewards ! i +
                gamma' * Max (set (call W (if use_target a then the (q_target a1) else q_net a)
                                     (new_states ! i))))) \<and>
   (sample W (replay a) (batch_size a) g =
      Inr ((states, actions, rewards, dones, new_states), g1) \<and>
    sync_target a updates = Inr a1 \<and>
    this_Q (map (call W (q_net a1)) states) actions = Inr tq \<and>
    (use_target a \<longrightarrow> q_target a1 \<noteq> None) \<and>
    (\<forall>s \<in> set new_states.
       call W (if use_target a then the (q_target a1) else q_net a) s \<noteq> [])
    \<longrightarrow> (\<exists>z. bellman_batch W gamma' a updates g =
               Inr ((states, actions, rewards, dones, new_states), tq, z, a1, g1) \<and>
             length z = length rewards \<and>
             (\<forall>j<length rewards.
                z ! j =
                  (if dones ! j then rewards ! j
                   else rewards ! j +
                        gamma' *
                        Max (set (call W (if use_target a then the (q_target a1) else q_net a)
                                    (new_states ! j)))))))"
proof (rule conjI [OF impI impI])
  assume h: "bellman_batch W gamma' a updates g =
      Inr ((states, actions, rewards, dones, new_states), tq, y, a1, g1) \<and>
    i < length rewards"
  show "sample W (replay a) (batch_size a) g =
          Inr ((states, actions, rewards, dones, new_states), g1) \<and>
        length dones = length rewards \<and> length new_states = length rewards \<and>
        length y = length rewards \<and>
        y ! i =
          (if dones ! i then rewards ! i
           else rewards ! i +
                gamma' * Max (set (call W (if use_target a then the (q_target a1) else q_net a)
                                     (new_states ! i))))"
    by (rule bellman_batch_Inr [OF conjunct1 [OF h] conjunct2 [OF h]])
next
  let ?Q = "if use_target a then the (q_target a1) else q_net a"
  assume h: "sample W (replay a) (batch_size a) g =
      Inr ((states, actions, rewards, dones, new_states), g1) \<and>
    sync_target a updates = Inr a1 \<and>
    this_Q (map (call W (q_net a1)) states) actions = Inr tq \<and>
    (use_target a \<longrightarrow> q_target a1 \<noteq> None) \<and>
    (\<forall>s \<in> set new_states. call W ?Q s \<noteq> [])"
  then have sy: "sync_target a updates = Inr a1"
    by simp
  then have ut: "use_target a1 = use_target a" and qn: "q_net a1 = q_net a"
    by (auto simp: sync_target_def split: if_splits option.splits)
  from h have "use_target a1 \<longrightarrow> q_target a1 \<noteq> None"
    and "\<forall>s \<in> set new_states.
           call W (if use_target a1 then the (q_target a1) else q_net a1) s \<noteq> []"
    by (auto simp: ut qn)
  from next_Q_total [OF this] obtain nq where nq: "next_Q W a1 new_states = Inr nq"
    by blast
  let ?z = "np_where dones rewards (map (\<lambda>(reward, q). reward + gamma' * q) (zip rewards nq))"
  from h nq have b: "bellman_batch W gamma' a updates g =
                       Inr ((states, actions, rewards, dones, new_states), tq, ?z, a1, g1)"
    by (simp add: bellman_batch_def)
  have "length ?z = length rewards \<and>
        ?z ! j = (if dones ! j then rewards ! j
                  else rewards ! j + gamma' * Max (set (call W ?Q (new_states ! j))))"
    if "j < length rewards" for j
    using bellman_batch_Inr [OF b that] by simp
  moreover have "length ?z = length rewards"
  proof -
    from sample_Inr h have ld: "length dones = length rewards"
      by fastforce
    from next_Q_Inr [OF nq] sample_Inr h have "length nq = length rewards"
      by fastforce
    with ld show ?thesis
      by (simp add: np_where_def)
  qed
  ultimately show "\<exists>z. bellman_batch W gamma' a updates g =
               Inr ((states, actions, rewards, dones, new_states), tq, z, a1, g1) \<and>
             length z = length rewards \<and>
             (\<forall>j<length rewards.
                z ! j =
                  (if dones ! j then rewards ! j
                   else rewards ! j + gamma' * Max (set (call W ?Q (new_states ! j)))))"
    using b by blast
qed

theorem bellman_target_witness:
  "bellman_batch demo_world (9 / 10) (demo_agent\<lparr>replay := demo_replay\<rparr>) 1 0 =
     Inr (([0, 1], [0, 1], [1, 4], [False, True], [1, 2]), [0, 5], [14 / 5, 4],
          demo_agent\<lparr>replay := demo_replay\<rparr>, 1) \<and>
   [14 / 5, 4] ! 0 = 1 + 9 / 10 * Max (set (call demo_world 2 1)) \<and>
   [14 / 5, 4 :: real] ! 1 = 4 \<and>
   \<not> use_target
       (demo_agent\<lparr>use_target := False, q_target := None, target_frequency := None,
          replay := demo_replay\<rparr>) \<and>
   bellman_batch demo_world (9 / 10)
     (demo_agent\<lparr>use_target := False, q_target := None, target_frequency := None,
        replay := demo_replay\<rparr>) 1 0 =
     Inr (([0, 1], [0, 1], [1, 4], [False, True], [1, 2]), [0, 5], [11 / 2, 4],
          demo_agent\<lparr>use_target := False, q_target := None, target_frequency := None,
            replay := demo_replay\<rparr>, 1) \<and>
   [11 / 2, 4] ! 0 = 1 + 9 / 10 * Max (set (call demo_world 5 1))"
proof -
  let ?A = "demo_agent\<lparr>replay := demo_replay\<rparr>"
  let ?B = "demo_agent\<lparr>use_target := False, q_target := None, target_frequency := None,
              replay := demo_replay\<rparr>"
  txt \<open>With a target network: the iteration returned, the theorem reads its target.\<close>
  have h: "bellman_batch demo_world (9 / 10) ?A 1 0 =
     Inr (([0, 1], [0, 1], [1, 4], [False, True], [1, 2]), [0, 5], [14 / 5, 4], ?A, 1) \<and>
     (0::nat) < length [1 :: real, 4]"
    by (simp add: bellman_batch_def sample_def sync_target_def next_Q_def np_where_def
        demo_world_def demo_agent_def demo_replay_def upt_two)
  have h': "bellman_batch demo_world (9 / 10) ?A 1 0 =
     Inr (([0, 1], [0, 1], [1, 4], [False, True], [1, 2]), [0, 5], [14 / 5, 4], ?A, 1) \<and>
     (1::nat) < length [1 :: real, 4]"
    using h by simp
  note t0 = bellman_target [THEN conjunct1, THEN mp, OF h]
  note t1 = bellman_target [THEN conjunct1, THEN mp, OF h']
  have a0: "[14 / 5, 4] ! 0 = 1 + 9 / 10 * Max (set (call demo_world 2 1))"
    using t0 by (simp add: demo_agent_def)
  have a1: "[14 / 5, 4 :: real] ! 1 = 4"
    using t1 by simp
  txt \<open>Without one: the parts succeed, so the theorem gives the target.\<close>
  have prem: "sample demo_world (replay ?B) (batch_size ?B) 0 =
      Inr (([0, 1], [0, 1], [1, 4], [False, True], [1, 2]), 1) \<and>
    sync_target ?B 1 = Inr ?B \<and>
    this_Q (map (call demo_world (q_net ?B)) [0, 1]) [0, 1] = Inr [0, 5] \<and>
    (use_target ?B \<longrightarrow> q_target ?B \<noteq> None) \<and>
    (\<forall>s \<in> set [1, 2].
       call demo_world (if use_target ?B then the (q_target ?B) else q_net ?B) s \<noteq> [])"
    by (simp add: sample_def sync_target_def demo_world_def demo_agent_def demo_replay_def
        upt_two)
  from bellman_target [where gamma' = "9 / 10", THEN conjunct2, THEN mp, OF prem]
  obtain z where b: "bellman_batch demo_world (9 / 10) ?B 1 0 =
               Inr (([0, 1], [0, 1], [1, 4], [False, True], [1, 2]), [0, 5], z, ?B, 1)"
    and l: "length z = length [1 :: real, 4]"
    and n: "\<forall>j<length [1 :: real, 4].
                z ! j =
                  (if [False, True] ! j then [1, 4] ! j
                   else [1, 4] ! j +
                        9 / 10 *
                        Max (set (call demo_world
                                    (if use_target ?B then the (q_target ?B) else q_net ?B)
                                    ([1, 2] ! j))))"
    by blast
  from n have "z ! 0 = 11 / 2" and "z ! 1 = 4"
    by (simp_all add: demo_world_def demo_agent_def)
  with l have z: "z = [11 / 2, 4]"
    by (auto simp: list_eq_iff_nth_eq less_Suc_eq numeral_2_eq_2)
  have b0: "[11 / 2, 4] ! 0 = 1 + 9 / 10 * Max (set (call demo_world 5 1))"
    by (simp add: demo_world_def)
  from h a0 a1 b z b0 show ?thesis
    by simp
qed

section \<open>Epsilon annealing\<close>

lemma np_power_zero_exp: "np_power x 0 = Fin 1"
  by (simp add: np_power_def)

lemma np_power_one_exp: "np_power x 1 = Fin x"
  by (simp add: np_power_def)

text \<open>
  Claim C4. For \<open>total_steps \<noteq> 0\<close> (so for every \<open>N > 0\<close>), \<^verbatim>\<open>_epsilon\<close> returns
  \<^verbatim>\<open>epsilon_init * np.power(epsilon_decay, step / total_steps)\<close>, which for a positive
  \<^verbatim>\<open>epsilon_decay\<close> is the real power; at step \<open>0\<close> it is \<^verbatim>\<open>epsilon_init\<close> and at
  step \<open>total_steps\<close> it is \<^verbatim>\<open>epsilon_init * epsilon_decay\<close>, for every value of
  \<^verbatim>\<open>epsilon_decay\<close>.
\<close>

theorem epsilon_annealing:
  assumes "total_steps \<noteq> 0"
  shows "p_epsilon a step total_steps =
           Inr (times_float (epsilon_init a)
                  (np_power (epsilon_decay a) (real_of_int step / real_of_int total_steps))) \<and>
         (0 < epsilon_decay a \<longrightarrow>
            p_epsilon a step total_steps =
              Inr (Fin (epsilon_init a *
                        epsilon_decay a powr (real_of_int step / real_of_int total_steps)))) \<and>
         p_epsilon a 0 total_steps = Inr (Fin (epsilon_init a)) \<and>
         p_epsilon a total_steps total_steps = Inr (Fin (epsilon_init a * epsilon_decay a))"
proof -
  have general: "p_epsilon a step total_steps =
           Inr (times_float (epsilon_init a)
                  (np_power (epsilon_decay a) (real_of_int step / real_of_int total_steps)))"
    using assms by (simp add: p_epsilon_def)
  have positive: "p_epsilon a step total_steps =
              Inr (Fin (epsilon_init a *
                        epsilon_decay a powr (real_of_int step / real_of_int total_steps)))"
    if "0 < epsilon_decay a"
    using assms that by (simp add: p_epsilon_def np_power_def times_float_def)
  have first: "p_epsilon a 0 total_steps = Inr (Fin (epsilon_init a))"
    using assms by (simp add: p_epsilon_def np_power_zero_exp times_float_def)
  have last: "p_epsilon a total_steps total_steps = Inr (Fin (epsilon_init a * epsilon_decay a))"
    using assms by (simp add: p_epsilon_def np_power_one_exp times_float_def)
  from general positive first last show ?thesis
    by blast
qed

lemma quarter_powr_half: "(1 / 4) powr (1 / 2) = (1 / 2 :: real)"
  by (simp add: powr_half_sqrt real_sqrt_divide)

theorem epsilon_annealing_witness:
  "(4::int) \<noteq> 0 \<and>
   p_epsilon demo_agent 2 4 = Inr (Fin (1 / 8)) \<and>
   p_epsilon demo_agent 0 4 = Inr (Fin (1 / 4)) \<and>
   p_epsilon demo_agent 4 4 = Inr (Fin (1 / 16))"
proof -
  have h: "(4::int) \<noteq> 0"
    by simp
  show ?thesis
    using h epsilon_annealing [OF h, of demo_agent 2]
    by (simp add: demo_agent_def np_power_def times_float_def quarter_powr_half)
qed

section \<open>Greedy action selection\<close>

lemma argmax_scan_spec:
  assumes "length pre = i" "best < i" "v = pre ! best" "\<forall>j<i. pre ! j \<le> v"
    "\<forall>j<best. pre ! j < v"
  shows "argmax_scan best v i xs < length (pre @ xs) \<and>
         (\<forall>j<length (pre @ xs). (pre @ xs) ! j \<le> (pre @ xs) ! argmax_scan best v i xs) \<and>
         (\<forall>j<argmax_scan best v i xs. (pre @ xs) ! j < (pre @ xs) ! argmax_scan best v i xs)"
  using assms
proof (induction xs arbitrary: best v i pre)
  case Nil
  then show ?case by simp
next
  case (Cons x xs)
  let ?pre = "pre @ [x]"
  have len: "length ?pre = Suc i" using Cons.prems by simp
  show ?case
  proof (cases "v < x")
    case True
    have a: "i < Suc i" by simp
    have b: "x = ?pre ! i" using Cons.prems(1) by (auto simp: nth_append)
    have c: "\<forall>j<Suc i. ?pre ! j \<le> x"
      using Cons.prems True by (auto simp: nth_append less_Suc_eq)
    have d: "\<forall>j<i. ?pre ! j < x"
      using Cons.prems True by (auto simp: nth_append) 
    from Cons.IH [OF len a b c d] True show ?thesis
      by simp
  next
    case False
    have a: "best < Suc i" using Cons.prems by simp
    have b: "v = ?pre ! best" using Cons.prems by (simp add: nth_append)
    have c: "\<forall>j<Suc i. ?pre ! j \<le> v"
      using Cons.prems False by (auto simp: nth_append less_Suc_eq)
    have d: "\<forall>j<best. ?pre ! j < v"
      using Cons.prems by (auto simp: nth_append)
    from Cons.IH [OF len a b c d] False show ?thesis
      by simp
  qed
qed

lemma argmax_lowest:
  assumes "out \<noteq> []"
  shows "\<exists>i. argmax out = Inr i \<and> i < length out \<and> out ! i = Max (set out) \<and>
             (\<forall>j<i. out ! j < out ! i)"
proof -
  from assms obtain x xs where o: "out = x # xs"
    by (cases out) auto
  let ?i = "argmax_scan 0 x 1 xs"
  have "?i < length ([x] @ xs) \<and>
        (\<forall>j<length ([x] @ xs). ([x] @ xs) ! j \<le> ([x] @ xs) ! ?i) \<and>
        (\<forall>j<?i. ([x] @ xs) ! j < ([x] @ xs) ! ?i)"
    by (rule argmax_scan_spec) simp_all
  then have lt: "?i < length out" and ge: "\<forall>j<length out. out ! j \<le> out ! ?i"
    and low: "\<forall>j<?i. out ! j < out ! ?i"
    by (simp_all add: o)
  have "Max (set out) = out ! ?i"
  proof (rule Max_eqI)
    show "finite (set out)" by simp
    show "y \<le> out ! ?i" if "y \<in> set out" for y
      using that ge by (auto simp: in_set_conv_nth)
    show "out ! ?i \<in> set out"
      using lt by simp
  qed
  with lt low show ?thesis
    by (simp add: o)
qed

text \<open>
  Claim C6. \<^verbatim>\<open>act(state, evaluation=True)\<close> depends on the online network's parameters
  and the state only: two agents with the same parameters return the same action (or
  fail alike), whatever their \<^verbatim>\<open>epsilon\<close> and the state of the random generator,
  which is not touched. On a non-empty row of action values the action is the lowest
  index that attains the maximum.
\<close>

theorem act_evaluation_deterministic:
  assumes "q_net a' = q_net a"
  shows "map_sum id fst (act W a' state True g') = map_sum id fst (act W a state True g) \<and>
         (call W (q_net a) state \<noteq> [] \<longrightarrow>
            (\<exists>i. act W a state True g = Inr (i, g) \<and>
                 i < length (call W (q_net a) state) \<and>
                 call W (q_net a) state ! i = Max (set (call W (q_net a) state)) \<and>
                 (\<forall>j<i. call W (q_net a) state ! j < call W (q_net a) state ! i)))"
proof -
  have e: "act W b state True h =
             (case argmax (call W (q_net b) state) of Inl e \<Rightarrow> Inl e | Inr i \<Rightarrow> Inr (i, h))"
    for b :: "('a, 'b, 'c) agent" and h
    by (simp add: act_def)
  have "map_sum id fst (act W a' state True g') = map_sum id fst (act W a state True g)"
    by (simp add: e assms split: sum.splits)
  moreover have "\<exists>i. act W a state True g = Inr (i, g) \<and>
                 i < length (call W (q_net a) state) \<and>
                 call W (q_net a) state ! i = Max (set (call W (q_net a) state)) \<and>
                 (\<forall>j<i. call W (q_net a) state ! j < call W (q_net a) state ! i)"
    if "call W (q_net a) state \<noteq> []"
    using argmax_lowest [OF that] by (auto simp: e)
  ultimately show ?thesis
    by blast
qed

theorem act_evaluation_deterministic_witness:
  "q_net (demo_agent\<lparr>epsilon := Fin 1\<rparr>) = q_net demo_agent \<and>
   act demo_world (demo_agent\<lparr>epsilon := Fin 1\<rparr>) 5 True 7 = Inr (0, 7) \<and>
   act demo_world demo_agent 5 True 0 = Inr (0, 0) \<and>
   call demo_world (q_net demo_agent) 5 = [5, 5]"
proof -
  have h: "q_net (demo_agent\<lparr>epsilon := Fin 1\<rparr>) = q_net demo_agent"
    by simp
  show ?thesis
    using h act_evaluation_deterministic [OF h, of demo_world 5 7 0]
    by (simp add: act_def demo_world_def demo_agent_def)
qed

section \<open>The target network\<close>

text \<open>
  What one descent iteration and the whole descent loop leave unchanged, and what the
  synchronisation does.
\<close>

lemma sync_target_Inr:
  assumes "sync_target a updates = Inr a1"
  shows "a1 = a \<or> a1 = a\<lparr>q_target := Some (q_net a)\<rparr>"
    and "use_target a \<Longrightarrow> \<exists>tf. target_frequency a = Some tf \<and> tf \<noteq> 0"
    and "use_target a \<and> updates mod the (target_frequency a) = 0 \<Longrightarrow>
           a1 = a\<lparr>q_target := Some (q_net a)\<rparr>"
    and "\<not> (use_target a \<and> updates mod the (target_frequency a) = 0) \<Longrightarrow> a1 = a"
  using assms
  by (auto simp: sync_target_def split: if_splits option.splits)

lemma update_step_Inr:
  assumes "update_step W gamma' a updates g = Inr (loss, a', g')"
  shows "\<exists>a1 w opt. sync_target a updates = Inr a1 \<and> a' = a1\<lparr>q_net := w, optimizer := opt\<rparr>"
  using assms
  by (auto simp: update_step_def bellman_batch_def Let_def split: sum.splits prod.splits)

lemma update_step_frame:
  assumes "update_step W gamma' a updates g = Inr (loss, a', g')"
  shows "epsilon a' = epsilon a \<and> epsilon_init a' = epsilon_init a \<and>
         epsilon_decay a' = epsilon_decay a \<and> replay a' = replay a \<and>
         use_target a' = use_target a \<and> target_frequency a' = target_frequency a"
proof -
  from update_step_Inr [OF assms] obtain a1 w opt
    where s: "sync_target a updates = Inr a1" and a': "a' = a1\<lparr>q_net := w, optimizer := opt\<rparr>"
    by blast
  from sync_target_Inr(1) [OF s] show ?thesis
    by (auto simp: a')
qed

lemma update_step_target:
  assumes "update_step W gamma' a updates g = Inr (loss, a', g')"
  shows "\<exists>a1. sync_target a updates = Inr a1 \<and> q_net a1 = q_net a \<and>
              q_target a' = q_target a1 \<and>
              (if use_target a \<and> updates mod the (target_frequency a) = 0
               then q_target a1 = Some (q_net a1) \<and>
                    (\<forall>state. call W (the (q_target a1)) state = call W (q_net a1) state)
               else q_target a1 = q_target a)"
proof -
  from update_step_Inr [OF assms] obtain a1 w opt
    where s: "sync_target a updates = Inr a1" and a': "a' = a1\<lparr>q_net := w, optimizer := opt\<rparr>"
    by blast
  have "q_target a' = q_target a1"
    by (simp add: a')
  moreover have "q_net a1 = q_net a"
    using sync_target_Inr(1) [OF s] by auto
  moreover have "q_target a1 = Some (q_net a1) \<and>
                 (\<forall>state. call W (the (q_target a1)) state = call W (q_net a1) state)"
    if "use_target a \<and> updates mod the (target_frequency a) = 0"
    using sync_target_Inr(3) [OF s that] by simp
  moreover have "q_target a1 = q_target a"
    if "\<not> (use_target a \<and> updates mod the (target_frequency a) = 0)"
    using sync_target_Inr(4) [OF s that] by simp
  ultimately show ?thesis
    using s by auto
qed

lemma descent_loop_frame:
  assumes "descent_loop W gamma' us a g loss = Inr (l, a', g')"
  shows "epsilon a' = epsilon a \<and> epsilon_init a' = epsilon_init a \<and>
         epsilon_decay a' = epsilon_decay a \<and> replay a' = replay a \<and>
         use_target a' = use_target a \<and> target_frequency a' = target_frequency a"
  using assms
proof (induction us arbitrary: a g loss)
  case Nil
  then show ?case by simp
next
  case (Cons u us)
  from Cons.prems obtain l1 a1 g1 where u: "update_step W gamma' a u g = Inr (l1, a1, g1)"
    and r: "descent_loop W gamma' us a1 g1 (Some l1) = Inr (l, a', g')"
    by (auto split: sum.splits)
  from Cons.IH [OF r] update_step_frame [OF u] show ?case
    by simp
qed

lemma descent_loop_target:
  assumes "descent_loop W gamma' us a g loss = Inr (l, a', g')"
  shows "q_target a' = q_target a \<or>
         (\<exists>k<length us. \<exists>lk ak gk.
            descent_loop W gamma' (take k us) a g loss = Inr (lk, ak, gk) \<and>
            q_target a' = Some (q_net ak))"
  using assms
proof (induction us arbitrary: a g loss)
  case Nil
  then show ?case by simp
next
  case (Cons u us)
  from Cons.prems obtain l1 a1 g1 where u: "update_step W gamma' a u g = Inr (l1, a1, g1)"
    and r: "descent_loop W gamma' us a1 g1 (Some l1) = Inr (l, a', g')"
    by (auto split: sum.splits)
  from update_step_target [OF u] have t1: "q_target a1 = q_target a \<or> q_target a1 = Some (q_net a)"
    by (auto split: if_splits)
  from Cons.IH [OF r] show ?case
  proof
    assume same: "q_target a' = q_target a1"
    from t1 show ?thesis
    proof
      assume "q_target a1 = q_target a"
      with same show ?thesis by simp
    next
      assume "q_target a1 = Some (q_net a)"
      with same have "descent_loop W gamma' (take 0 (u # us)) a g loss = Inr (loss, a, g) \<and>
                      q_target a' = Some (q_net a)"
        by simp
      then show ?thesis
        by (intro disjI2 exI [of _ 0]) auto
    qed
  next
    assume "\<exists>k<length us. \<exists>lk ak gk.
              descent_loop W gamma' (take k us) a1 g1 (Some l1) = Inr (lk, ak, gk) \<and>
              q_target a' = Some (q_net ak)"
    then obtain k lk ak gk where k: "k < length us"
      and p: "descent_loop W gamma' (take k us) a1 g1 (Some l1) = Inr (lk, ak, gk)"
      and q: "q_target a' = Some (q_net ak)"
      by blast
    from p u have "descent_loop W gamma' (take (Suc k) (u # us)) a g loss = Inr (lk, ak, gk)"
      by simp
    with k q show ?thesis
      by (intro disjI2 exI [of _ "Suc k"]) auto
  qed
qed

lemma p_update_weights_Inr:
  assumes "p_update_weights W a gamma' g = Inr (loss, a', g')"
  shows "descent_loop W gamma' (map int [0..<nat (descent_frequency a)]) a g None =
           Inr (Some loss, a', g')"
  using assms
  by (auto simp: p_update_weights_def split: sum.splits option.splits)

text \<open>
  The other operations that return an agent: \<^verbatim>\<open>load\<close> and \<^verbatim>\<open>clear_experience\<close> leave
  the target parameters and the epsilon attributes as they are, and an episode of
  \<^verbatim>\<open>train\<close> changes the target parameters only through \<^verbatim>\<open>_update_weights\<close>.
\<close>

lemma load_frame:
  assumes "load P a path fs = Inr a'"
  shows "q_target a' = q_target a \<and> epsilon a' = epsilon a \<and>
         epsilon_init a' = epsilon_init a \<and> epsilon_decay a' = epsilon_decay a"
  using assms by (auto simp: load_def split: option.splits)

lemma clear_experience_frame:
  assumes "clear_experience a = Inr a'"
  shows "q_target a' = q_target a \<and> q_net a' = q_net a \<and> epsilon a' = epsilon a \<and>
         epsilon_init a' = epsilon_init a \<and> epsilon_decay a' = epsilon_decay a"
  using assms by (auto simp: clear_experience_def split: sum.splits)

lemma train_episode_target:
  assumes "train_episode W episodes render_frequency episode a env g = Some (Inr (a', env', g'))"
  shows "q_target a' = q_target a \<or>
         (\<exists>a2 g1 loss. q_target a2 = q_target a \<and> q_net a2 = q_net a \<and>
            p_update_weights W a2 (gamma a) g1 = Inr (loss, a', g'))"
  using assms
  by (auto simp: train_episode_def Let_def split: sum.splits option.splits if_splits)

text \<open>
  Claim C5. In a descent iteration the target parameters change only in the
  synchronisation, which runs before the gradient step and copies the online
  parameters: right after a copy the target network's parameters are the online
  network's, so both give the same action values on every state; without a copy the
  target parameters stay as they were; the gradient step that follows leaves them
  alone. Over a whole \<^verbatim>\<open>_update_weights\<close> the final target parameters are therefore
  the initial ones or the online parameters as they were at the start of one of the
  iterations. (\<^verbatim>\<open>act\<close>, \<^verbatim>\<open>simulate\<close>, \<^verbatim>\<open>_epsilon\<close>, \<^verbatim>\<open>save\<close>, \<^verbatim>\<open>load\<close> and
  \<^verbatim>\<open>clear_experience\<close> assign nothing to \<^verbatim>\<open>q_target\<close>.)
\<close>

theorem target_only_copied:
  "(update_step W gamma' a updates g = Inr (loss, a', g') \<longrightarrow>
      (\<exists>a1. sync_target a updates = Inr a1 \<and> q_net a1 = q_net a \<and>
            q_target a' = q_target a1 \<and>
            (if use_target a \<and> updates mod the (target_frequency a) = 0
             then q_target a1 = Some (q_net a1) \<and>
                  (\<forall>state. call W (the (q_target a1)) state = call W (q_net a1) state)
             else q_target a1 = q_target a))) \<and>
   (p_update_weights W a gamma' g = Inr (loss, a', g') \<longrightarrow>
      q_target a' = q_target a \<or>
      (\<exists>k<nat (descent_frequency a). \<exists>lk ak gk.
         descent_loop W gamma' (map int [0..<k]) a g None = Inr (lk, ak, gk) \<and>
         q_target a' = Some (q_net ak)))"
proof (intro conjI impI)
  assume "update_step W gamma' a updates g = Inr (loss, a', g')"
  then show "\<exists>a1. sync_target a updates = Inr a1 \<and> q_net a1 = q_net a \<and>
            q_target a' = q_target a1 \<and>
            (if use_target a \<and> updates mod the (target_frequency a) = 0
             then q_target a1 = Some (q_net a1) \<and>
                  (\<forall>state. call W (the (q_target a1)) state = call W (q_net a1) state)
             else q_target a1 = q_target a)"
    by (rule update_step_target)
next
  let ?n = "nat (descent_frequency a)"
  assume "p_update_weights W a gamma' g = Inr (loss, a', g')"
  then have "descent_loop W gamma' (map int [0..<?n]) a g None = Inr (Some loss, a', g')"
    by (rule p_update_weights_Inr)
  from descent_loop_target [OF this]
  show "q_target a' = q_target a \<or>
      (\<exists>k<?n. \<exists>lk ak gk.
         descent_loop W gamma' (map int [0..<k]) a g None = Inr (lk, ak, gk) \<and>
         q_target a' = Some (q_net ak))"
  proof
    assume "q_target a' = q_target a"
    then show ?thesis by simp
  next
    assume "\<exists>k<length (map int [0..<?n]). \<exists>lk ak gk.
              descent_loop W gamma' (take k (map int [0..<?n])) a g None = Inr (lk, ak, gk) \<and>
              q_target a' = Some (q_net ak)"
    then obtain k lk ak gk where k: "k < ?n"
      and p: "descent_loop W gamma' (take k (map int [0..<?n])) a g None = Inr (lk, ak, gk)"
      and q: "q_target a' = Some (q_net ak)"
      by auto
    from k have "take k (map int [0..<?n]) = map int [0..<k]"
      by (simp add: take_map take_upt)
    with p k q show ?thesis
      by auto
  qed
qed


theorem target_only_copied_witness:
  "update_step demo_world (9 / 10) (demo_agent\<lparr>replay := demo_replay\<rparr>) 0 0 =
     Inr (125 / 8, demo_agent\<lparr>replay := demo_replay, q_target := Some 5, q_net := 6\<rparr>, 1) \<and>
   p_update_weights demo_world (demo_agent\<lparr>replay := demo_replay\<rparr>) (9 / 10) 0 =
     Inr (125 / 8, demo_agent\<lparr>replay := demo_replay, q_target := Some 5, q_net := 6\<rparr>, 1) \<and>
   sync_target (demo_agent\<lparr>replay := demo_replay\<rparr>) 0 =
     Inr (demo_agent\<lparr>replay := demo_replay, q_target := Some 5\<rparr>) \<and>
   call demo_world (the (q_target (demo_agent\<lparr>replay := demo_replay, q_target := Some 5\<rparr>))) 3 =
     call demo_world (q_net (demo_agent\<lparr>replay := demo_replay, q_target := Some 5\<rparr>)) 3"
proof -
  have u: "update_step demo_world (9 / 10) (demo_agent\<lparr>replay := demo_replay\<rparr>) 0 0 =
     Inr (125 / 8, demo_agent\<lparr>replay := demo_replay, q_target := Some 5, q_net := 6\<rparr>, 1)"
    by (simp add: update_step_def bellman_batch_def sample_def sync_target_def next_Q_def
        np_where_def reduce_mean_def demo_world_def demo_agent_def demo_replay_def upt_two
        power2_eq_square)
  have p: "p_update_weights demo_world (demo_agent\<lparr>replay := demo_replay\<rparr>) (9 / 10) 0 =
     Inr (125 / 8, demo_agent\<lparr>replay := demo_replay, q_target := Some 5, q_net := 6\<rparr>, 1)"
    using u by (simp add: p_update_weights_def demo_agent_def)
  show ?thesis
    using u p
      target_only_copied [of demo_world "9 / 10" "demo_agent\<lparr>replay := demo_replay\<rparr>" 0 0
        "125 / 8" "demo_agent\<lparr>replay := demo_replay, q_target := Some 5, q_net := 6\<rparr>" 1]
    by (simp add: sync_target_def demo_agent_def demo_world_def)
qed

section \<open>Construction\<close>

text \<open>
  A capacity of \<open>0\<close>, a batch size of \<open>10\<close> above it and frequencies of \<open>0\<close>:
  the constructor returns an agent, and the agent acts.
\<close>

theorem init_accepts_invalid_configuration:
  "DeepQNetwork_init demo_world [2, 2] (1 / 4) (1 / 4) (9 / 10) 0 2 10 (1 / 1000) 0 0 True 0 =
     Inr (demo_agent\<lparr>target_frequency := Some 0, memory := 0,
            replay := \<lparr>maxlen = 0, buffer = []\<rparr>, batch_size := 10,
            descent_frequency := 0, update_frequency := 0\<rparr>) \<and>
   act demo_world
     (demo_agent\<lparr>target_frequency := Some 0, memory := 0,
        replay := \<lparr>maxlen = 0, buffer = []\<rparr>, batch_size := 10,
        descent_frequency := 0, update_frequency := 0\<rparr>) 0 True 0 = Inr (1, 0)"
  by (simp add: DeepQNetwork_init_def ExperienceReplay_init_def sys_maxsize_def act_def demo_world_def
      demo_agent_def)

text \<open>
  Claim C7, as amended. \<^verbatim>\<open>__init__\<close> validates none of its capacity, batch size and
  frequency parameters. Of these only the capacity can make construction fail, and only
  where \<^verbatim>\<open>collections.deque\<close> rejects it as a \<^verbatim>\<open>maxlen\<close>: with OverflowError outside
  the range of \<^verbatim>\<open>Py_ssize_t\<close>, with ValueError when negative. For every capacity from
  \<open>0\<close> to \<^verbatim>\<open>sys.maxsize\<close> the constructor returns an agent with an empty buffer of
  that capacity, which stores the batch size and the frequencies as given, whatever
  they are.
\<close>

theorem init_validates_only_maxlen:
  "(memory' < - sys_maxsize - 1 \<or> sys_maxsize < memory' \<longrightarrow>
      DeepQNetwork_init W dims' epsilon' epsilon_decay' gamma' memory' start_updating' batch_size'
        learning_rate descent_frequency' update_frequency' use_target' target_frequency' =
      Inl OverflowError) \<and>
   (- sys_maxsize - 1 \<le> memory' \<and> memory' < 0 \<longrightarrow>
      DeepQNetwork_init W dims' epsilon' epsilon_decay' gamma' memory' start_updating' batch_size'
        learning_rate descent_frequency' update_frequency' use_target' target_frequency' =
      Inl NegativeMaxlen) \<and>
   (0 \<le> memory' \<and> memory' \<le> sys_maxsize \<longrightarrow>
      (\<exists>a. DeepQNetwork_init W dims' epsilon' epsilon_decay' gamma' memory' start_updating'
             batch_size' learning_rate descent_frequency' update_frequency' use_target'
             target_frequency' = Inr a \<and>
           memory a = memory' \<and> maxlen (replay a) = nat memory' \<and> buffer (replay a) = [] \<and>
           start_updating a = start_updating' \<and> batch_size a = batch_size' \<and>
           descent_frequency a = descent_frequency' \<and>
           update_frequency a = update_frequency' \<and>
           target_frequency a = (if use_target' then Some target_frequency' else None)))"
proof -
  let ?init = "DeepQNetwork_init W dims' epsilon' epsilon_decay' gamma' memory' start_updating'
      batch_size' learning_rate descent_frequency' update_frequency' use_target'
      target_frequency'"
  have overflow: "?init = Inl OverflowError"
    if "memory' < - sys_maxsize - 1 \<or> sys_maxsize < memory'"
    using that by (auto simp: DeepQNetwork_init_def ExperienceReplay_init_def Let_def)
  have negative: "?init = Inl NegativeMaxlen"
    if "- sys_maxsize - 1 \<le> memory' \<and> memory' < 0"
    using that
    by (auto simp: DeepQNetwork_init_def ExperienceReplay_init_def sys_maxsize_def Let_def)
  have accepted: "\<exists>a. ?init = Inr a \<and>
           memory a = memory' \<and> maxlen (replay a) = nat memory' \<and> buffer (replay a) = [] \<and>
           start_updating a = start_updating' \<and> batch_size a = batch_size' \<and>
           descent_frequency a = descent_frequency' \<and>
           update_frequency a = update_frequency' \<and>
           target_frequency a = (if use_target' then Some target_frequency' else None)"
    if "0 \<le> memory' \<and> memory' \<le> sys_maxsize"
    using that
    by (auto simp: DeepQNetwork_init_def ExperienceReplay_init_def sys_maxsize_def Let_def)
  from overflow negative accepted show ?thesis
    by blast
qed

theorem init_validates_only_maxlen_witness:
  "DeepQNetwork_init demo_world [2, 2] (1 / 4) (1 / 4) (9 / 10) 9223372036854775808 2 2
     (1 / 1000) 1 1 True 3 = (Inl OverflowError :: error + (nat, unit, nat) agent) \<and>
   DeepQNetwork_init demo_world [2, 2] (1 / 4) (1 / 4) (9 / 10) (- 1) 2 2 (1 / 1000) 1 1 True 3 =
     (Inl NegativeMaxlen :: error + (nat, unit, nat) agent) \<and>
   (\<exists>a :: (nat, unit, nat) agent.
      DeepQNetwork_init demo_world [2, 2] (1 / 4) (1 / 4) (9 / 10) 0 2 10 (1 / 1000) 0 0 True 0 =
        Inr a \<and>
      memory a = 0 \<and> batch_size a = 10 \<and> update_frequency a = 0 \<and>
      target_frequency a = Some 0)"
proof -
  have big: "(9223372036854775808 :: int) < - sys_maxsize - 1 \<or>
             sys_maxsize < (9223372036854775808 :: int)"
    and neg: "- sys_maxsize - 1 \<le> (- 1 :: int) \<and> (- 1 :: int) < 0"
    and nonneg: "(0::int) \<le> 0 \<and> (0::int) \<le> sys_maxsize"
    by (simp_all add: sys_maxsize_def)
  have c1: "DeepQNetwork_init demo_world [2, 2] (1 / 4) (1 / 4) (9 / 10) 9223372036854775808 2 2
     (1 / 1000) 1 1 True 3 = (Inl OverflowError :: error + (nat, unit, nat) agent)"
    using big
      init_validates_only_maxlen [where memory' = 9223372036854775808 and W = demo_world
        and dims' = "[2, 2]" and epsilon' = "1 / 4" and epsilon_decay' = "1 / 4"
        and gamma' = "9 / 10" and start_updating' = 2 and batch_size' = 2
        and learning_rate = "1 / 1000" and descent_frequency' = 1 and update_frequency' = 1
        and use_target' = True and target_frequency' = 3]
    by blast
  have c2: "DeepQNetwork_init demo_world [2, 2] (1 / 4) (1 / 4) (9 / 10) (- 1) 2 2
     (1 / 1000) 1 1 True 3 = (Inl NegativeMaxlen :: error + (nat, unit, nat) agent)"
    using neg
      init_validates_only_maxlen [where memory' = "- 1" and W = demo_world
        and dims' = "[2, 2]" and epsilon' = "1 / 4" and epsilon_decay' = "1 / 4"
        and gamma' = "9 / 10" and start_updating' = 2 and batch_size' = 2
        and learning_rate = "1 / 1000" and descent_frequency' = 1 and update_frequency' = 1
        and use_target' = True and target_frequency' = 3]
    by blast
  have c3: "\<exists>a :: (nat, unit, nat) agent.
      DeepQNetwork_init demo_world [2, 2] (1 / 4) (1 / 4) (9 / 10) 0 2 10 (1 / 1000) 0 0 True 0 =
        Inr a \<and>
      memory a = 0 \<and> batch_size a = 10 \<and> update_frequency a = 0 \<and>
      target_frequency a = Some 0"
    using nonneg
      init_validates_only_maxlen [where memory' = 0 and W = demo_world
        and dims' = "[2, 2]" and epsilon' = "1 / 4" and epsilon_decay' = "1 / 4"
        and gamma' = "9 / 10" and start_updating' = 2 and batch_size' = 10
        and learning_rate = "1 / 1000" and descent_frequency' = 0 and update_frequency' = 0
        and use_target' = True and target_frequency' = 0]
    by auto
  from c1 c2 c3 show ?thesis
    by blast
qed

section \<open>Saving and loading\<close>

text \<open>
  Claim C9. With libraries that read back what they wrote, and for an agent whose
  capacity the deque accepts (from \<open>0\<close> to \<^verbatim>\<open>sys.maxsize\<close>, as for every constructed
  agent), \<^verbatim>\<open>save(p)\<close>,
  \<^verbatim>\<open>clear_experience()\<close>, \<^verbatim>\<open>load(p)\<close> in this order succeed; the buffer is empty
  after the second step, and after the third the replay buffer has the length and the
  contents it had before \<^verbatim>\<open>save\<close> (the whole agent is as it was).
\<close>

theorem save_clear_load_roundtrip:
  assumes "persistence_contract P" "0 \<le> memory a" "memory a \<le> sys_maxsize"
  shows "\<exists>a1 a2. clear_experience a = Inr a1 \<and> buffer (replay a1) = [] \<and>
              load P a1 path (save P a path fs) = Inr a2 \<and>
              len (replay a2) = len (replay a) \<and>
              buffer (replay a2) = buffer (replay a) \<and>
              replay a2 = replay a \<and> a2 = a"
proof -
  let ?a1 = "a\<lparr>replay := \<lparr>maxlen = nat (memory a), buffer = []\<rparr>\<rparr>"
  have c: "clear_experience a = Inr ?a1"
    using assms(2,3) by (simp add: clear_experience_def ExperienceReplay_init_def)
  have w: "restore_weights P (dims ?a1) (save_weights P (dims a) (q_net a)) = Some (q_net a)"
    and p: "pickle_load P (pickle_dump P (replay a)) = Some (replay a)"
    using assms(1) by (simp_all add: persistence_contract_def)
  have "load P ?a1 path (save P a path fs) = Inr a"
    using w p by (simp add: load_def save_def)
  with c show ?thesis
    by simp
qed


theorem save_clear_load_roundtrip_witness:
  "persistence_contract demo_persistence \<and>
   0 \<le> memory (demo_agent\<lparr>replay := demo_replay\<rparr>) \<and>
   memory (demo_agent\<lparr>replay := demo_replay\<rparr>) \<le> sys_maxsize \<and>
   clear_experience (demo_agent\<lparr>replay := demo_replay\<rparr>) = Inr demo_agent \<and>
   load demo_persistence demo_agent ''model''
     (save demo_persistence (demo_agent\<lparr>replay := demo_replay\<rparr>) ''model'' Map.empty) =
     Inr (demo_agent\<lparr>replay := demo_replay\<rparr>)"
proof -
  have c: "persistence_contract demo_persistence"
    by (simp add: persistence_contract_def demo_persistence_def)
  have m: "0 \<le> memory (demo_agent\<lparr>replay := demo_replay\<rparr>)"
    and n: "memory (demo_agent\<lparr>replay := demo_replay\<rparr>) \<le> sys_maxsize"
    by (simp_all add: demo_agent_def sys_maxsize_def)
  have e: "clear_experience (demo_agent\<lparr>replay := demo_replay\<rparr>) = Inr demo_agent"
    by (simp add: clear_experience_def ExperienceReplay_init_def sys_maxsize_def demo_agent_def)
  show ?thesis
    using c m n e
      save_clear_load_roundtrip [OF c m n, of "''model''" Map.empty]
    by auto
qed

section \<open>The exploration rate\<close>

text \<open>
  For \<open>0 \<le> epsilon_decay \<le> 1\<close> and a non-negative exponent \<^verbatim>\<open>np.power\<close> stays in
  \<open>[0, 1]\<close>, so the annealed value stays between \<open>0\<close> and \<^verbatim>\<open>epsilon_init\<close>.
  The weight update assigns nothing to the three epsilon attributes.
\<close>

lemma np_power_unit:
  assumes "0 \<le> d" "d \<le> 1" "0 \<le> t"
  shows "\<exists>p. np_power d t = Fin p \<and> 0 \<le> p \<and> p \<le> 1"
proof (cases "t = 0")
  case True
  then show ?thesis by (simp add: np_power_def)
next
  case False
  with assms(3) have t: "0 < t" by simp
  show ?thesis
  proof (cases "d = 0")
    case True
    with t show ?thesis by (simp add: np_power_def)
  next
    case False
    with assms(1) have d: "0 < d" by simp
    have "d powr t \<le> 1"
      using assms by (intro powr_le1) simp_all
    with d t show ?thesis
      by (simp add: np_power_def)
  qed
qed

lemma p_epsilon_bounded:
  assumes "0 \<le> epsilon_init a" "0 \<le> epsilon_decay a" "epsilon_decay a \<le> 1"
    "0 \<le> step" "0 < total_steps"
  shows "\<exists>e. p_epsilon a step total_steps = Inr (Fin e) \<and> 0 \<le> e \<and> e \<le> epsilon_init a"
proof -
  have "0 \<le> real_of_int step / real_of_int total_steps"
    using assms(4,5) by simp
  from np_power_unit [OF assms(2,3) this] obtain p
    where p: "np_power (epsilon_decay a) (real_of_int step / real_of_int total_steps) = Fin p"
      and p0: "0 \<le> p" and p1: "p \<le> 1"
    by blast
  have "epsilon_init a * p \<le> epsilon_init a * 1"
    using assms(1) p1 by (rule mult_left_mono [rotated])
  with assms(1,5) p p0 show ?thesis
    by (simp add: p_epsilon_def times_float_def)
qed

lemma p_update_weights_frame:
  assumes "p_update_weights W a gamma' g = Inr (loss, a', g')"
  shows "epsilon a' = epsilon a \<and> epsilon_init a' = epsilon_init a \<and>
         epsilon_decay a' = epsilon_decay a \<and> replay a' = replay a"
  using descent_loop_frame [OF p_update_weights_Inr [OF assms]] by simp

lemma train_episode_Inr:
  assumes "train_episode W episodes render_frequency episode a env g = Some (Inr (a', env', g'))"
  shows "\<exists>eps. p_epsilon a episode episodes = Inr eps \<and> epsilon a' = eps \<and>
               epsilon_init a' = epsilon_init a \<and> epsilon_decay a' = epsilon_decay a"
proof -
  from assms obtain eps where e: "p_epsilon a episode episodes = Inr eps"
    by (auto simp: train_episode_def split: sum.splits)
  let ?a1 = "a\<lparr>epsilon := eps\<rparr>"
  from assms e obtain result r env1 g1 where
    "simulate W ?a1 env g (episode mod render_frequency = 0) False =
       Some (Inr (result, r, env1, g1))"
    by (auto simp: train_episode_def Let_def split: if_splits option.splits sum.splits)
  with assms e have
    "a' = ?a1\<lparr>replay := r\<rparr> \<or>
     (\<exists>loss g2. p_update_weights W (?a1\<lparr>replay := r\<rparr>) (gamma (?a1\<lparr>replay := r\<rparr>)) g1 =
        Inr (loss, a', g2))"
    by (auto simp: train_episode_def Let_def split: if_splits option.splits sum.splits)
  then show ?thesis
  proof
    assume "a' = ?a1\<lparr>replay := r\<rparr>"
    with e show ?thesis by simp
  next
    assume "\<exists>loss g2. p_update_weights W (?a1\<lparr>replay := r\<rparr>) (gamma (?a1\<lparr>replay := r\<rparr>)) g1 =
        Inr (loss, a', g2)"
    then obtain loss g2 where
      "p_update_weights W (?a1\<lparr>replay := r\<rparr>) (gamma (?a1\<lparr>replay := r\<rparr>)) g1 = Inr (loss, a', g2)"
      by blast
    from p_update_weights_frame [OF this] e show ?thesis
      by simp
  qed
qed

lemma train_episode_invariant:
  assumes "0 \<le> epsilon_init a" "0 \<le> epsilon_decay a" "epsilon_decay a \<le> 1"
    "0 \<le> episode" "0 < episodes"
    "train_episode W episodes render_frequency episode a env g = Some (Inr (a', env', g'))"
  shows "epsilon_invariant a' \<and> epsilon_init a' = epsilon_init a \<and>
         epsilon_decay a' = epsilon_decay a"
proof -
  from train_episode_Inr [OF assms(6)] obtain eps
    where e: "p_epsilon a episode episodes = Inr eps" and a': "epsilon a' = eps"
      and i: "epsilon_init a' = epsilon_init a" and d: "epsilon_decay a' = epsilon_decay a"
    by blast
  from p_epsilon_bounded [OF assms(1-5)] e obtain v
    where "eps = Fin v" "0 \<le> v" "v \<le> epsilon_init a"
    by auto
  with a' i d show ?thesis
    by (simp add: epsilon_invariant_def)
qed

lemma epsilon_invariant_init_nonneg: "epsilon_invariant a \<Longrightarrow> 0 \<le> epsilon_init a"
  by (auto simp: epsilon_invariant_def split: npfloat.splits)

lemma train_loop_invariant:
  assumes "0 \<le> epsilon_decay a" "epsilon_decay a \<le> 1" "epsilon_invariant a"
    "\<forall>e \<in> set es. 0 \<le> e \<and> e < episodes"
    "train_loop W episodes render_frequency es a env g = Some (Inr (a', env', g'))"
  shows "epsilon_invariant a' \<and> epsilon_init a' = epsilon_init a \<and>
         epsilon_decay a' = epsilon_decay a"
  using assms
proof (induction es arbitrary: a env g)
  case Nil
  then show ?case by simp
next
  case (Cons e es)
  from Cons.prems(5) obtain a1 env1 g1 where
    s: "train_episode W episodes render_frequency e a env g = Some (Inr (a1, env1, g1))"
    and r: "train_loop W episodes render_frequency es a1 env1 g1 = Some (Inr (a', env', g'))"
    by (auto split: option.splits sum.splits)
  from Cons.prems(4) have e: "0 \<le> e" "0 < episodes"
    by auto
  from train_episode_invariant [OF epsilon_invariant_init_nonneg [OF Cons.prems(3)]
      Cons.prems(1,2) e s]
  have i1: "epsilon_invariant a1" and e1: "epsilon_init a1 = epsilon_init a"
    and d1: "epsilon_decay a1 = epsilon_decay a"
    by simp_all
  from Cons.prems(4) have rest: "\<forall>e \<in> set es. 0 \<le> e \<and> e < episodes"
    by simp
  from Cons.prems(1,2) d1 have b: "0 \<le> epsilon_decay a1" "epsilon_decay a1 \<le> 1"
    by simp_all
  from Cons.IH [OF b i1 rest r] e1 d1 show ?case
    by simp
qed

lemma four_powr_half: "4 powr (1 / 2) = (2 :: real)"
  by (simp add: powr_half_sqrt)

text \<open>
  With \<^verbatim>\<open>epsilon_init = 0.5\<close> and \<^verbatim>\<open>epsilon_decay = 4\<close> the invariant holds before
  \<^verbatim>\<open>train\<close>; the second of two episodes sets \<^verbatim>\<open>epsilon = 0.5 * 4 ** (1/2) = 1\<close>, above
  \<^verbatim>\<open>epsilon_init\<close>, and \<^verbatim>\<open>train\<close> returns with it.
\<close>

theorem epsilon_exceeds_epsilon_init:
  "epsilon_invariant
     (demo_agent\<lparr>epsilon_init := 1 / 2, epsilon := Fin (1 / 2), epsilon_decay := 4,
        start_updating := 5\<rparr>) \<and>
   train demo_world
     (demo_agent\<lparr>epsilon_init := 1 / 2, epsilon := Fin (1 / 2), epsilon_decay := 4,
        start_updating := 5\<rparr>) 0 0 2 1 =
     Some (Inr (demo_agent\<lparr>epsilon_init := 1 / 2, epsilon := Fin 1, epsilon_decay := 4,
                  start_updating := 5,
                  replay := \<lparr>maxlen = 3,
                    buffer = [Experience 1 1 1 True 2, Experience 0 0 1 False 1,
                              Experience 1 0 1 True 2]\<rparr>\<rparr>, 2, 6)) \<and>
   \<not> epsilon_invariant
     (demo_agent\<lparr>epsilon_init := 1 / 2, epsilon := Fin 1, epsilon_decay := 4,
        start_updating := 5,
        replay := \<lparr>maxlen = 3,
          buffer = [Experience 1 1 1 True 2, Experience 0 0 1 False 1,
                    Experience 1 0 1 True 2]\<rparr>\<rparr>)"
  by (simp add: epsilon_invariant_def train_def train_episode_def p_epsilon_def np_power_def
      times_float_def simulate_def simulate_loop.simps act_def less_float_def
      append_replay_def len_def upt_two four_powr_half demo_world_def demo_agent_def)

text \<open>
  Claim C8, as amended. The constructor establishes \<open>0 \<le> epsilon \<le> epsilon_init\<close>
  when its \<^verbatim>\<open>epsilon\<close> argument is not negative. When moreover
  \<open>0 \<le> epsilon_decay \<le> 1\<close>, every \<^verbatim>\<open>train\<close> that returns keeps the invariant (its
  episodes reassign \<^verbatim>\<open>epsilon\<close>; simulation and weight updates do not touch it) and
  leaves \<^verbatim>\<open>epsilon_init\<close> and \<^verbatim>\<open>epsilon_decay\<close> as they were. Nothing in the code
  restricts \<^verbatim>\<open>epsilon\<close> or \<^verbatim>\<open>epsilon_decay\<close> to these ranges.
\<close>

theorem epsilon_invariant_preserved:
  "(0 \<le> epsilon' \<and>
    DeepQNetwork_init W dims' epsilon' epsilon_decay' gamma' memory' start_updating' batch_size'
      learning_rate descent_frequency' update_frequency' use_target' target_frequency' = Inr a0
    \<longrightarrow> epsilon_invariant a0) \<and>
   (0 \<le> epsilon_decay a \<and> epsilon_decay a \<le> 1 \<and> epsilon_invariant a \<and>
    train W a env g episodes render_frequency = Some (Inr (a', env', g'))
    \<longrightarrow> epsilon_invariant a' \<and> epsilon_init a' = epsilon_init a \<and>
        epsilon_decay a' = epsilon_decay a)"
proof (rule conjI [OF impI impI])
  assume "0 \<le> epsilon' \<and>
    DeepQNetwork_init W dims' epsilon' epsilon_decay' gamma' memory' start_updating' batch_size'
      learning_rate descent_frequency' update_frequency' use_target' target_frequency' = Inr a0"
  then show "epsilon_invariant a0"
    by (auto simp: DeepQNetwork_init_def Let_def epsilon_invariant_def split: sum.splits)
next
  assume h: "0 \<le> epsilon_decay a \<and> epsilon_decay a \<le> 1 \<and> epsilon_invariant a \<and>
    train W a env g episodes render_frequency = Some (Inr (a', env', g'))"
  then have t: "train_loop W episodes render_frequency (map int [0..<nat episodes]) a env g =
                  Some (Inr (a', env', g'))"
    by (simp add: train_def)
  have r: "\<forall>e \<in> set (map int [0..<nat episodes]). 0 \<le> e \<and> e < episodes"
    by auto
  from h have "0 \<le> epsilon_decay a" "epsilon_decay a \<le> 1" "epsilon_invariant a"
    by simp_all
  from train_loop_invariant [OF this r t]
  show "epsilon_invariant a' \<and> epsilon_init a' = epsilon_init a \<and>
        epsilon_decay a' = epsilon_decay a" .
qed

lemma demo_init:
  "DeepQNetwork_init demo_world [2, 2] (1 / 4) (1 / 4) (9 / 10) 3 2 2 (1 / 1000) 1 1 True 3 =
     Inr demo_agent"
  by (simp add: DeepQNetwork_init_def ExperienceReplay_init_def sys_maxsize_def demo_world_def demo_agent_def)

lemma demo_train_two:
  "train demo_world demo_agent 0 0 2 1 =
     Some (Inr (demo_agent\<lparr>q_net := 7, q_target := Some 6, epsilon := Fin (1 / 8),
                  replay := \<lparr>maxlen = 3,
                    buffer = [Experience 1 1 1 True 2, Experience 0 1 1 False 1,
                              Experience 1 1 1 True 2]\<rparr>\<rparr>, 2, 6))"
  by (simp add: train_def train_episode_def p_epsilon_def np_power_def times_float_def
      simulate_def simulate_loop.simps act_def less_float_def append_replay_def len_def
      p_update_weights_def update_step_def bellman_batch_def sample_def sync_target_def
      next_Q_def np_where_def upt_two quarter_powr_half demo_world_def demo_agent_def)

theorem epsilon_invariant_preserved_witness:
  "DeepQNetwork_init demo_world [2, 2] (1 / 4) (1 / 4) (9 / 10) 3 2 2 (1 / 1000) 1 1 True 3 =
     Inr demo_agent \<and>
   epsilon_invariant demo_agent \<and>
   train demo_world demo_agent 0 0 2 1 =
     Some (Inr (demo_agent\<lparr>q_net := 7, q_target := Some 6, epsilon := Fin (1 / 8),
                  replay := \<lparr>maxlen = 3,
                    buffer = [Experience 1 1 1 True 2, Experience 0 1 1 False 1,
                              Experience 1 1 1 True 2]\<rparr>\<rparr>, 2, 6)) \<and>
   epsilon_invariant
     (demo_agent\<lparr>q_net := 7, q_target := Some 6, epsilon := Fin (1 / 8),
        replay := \<lparr>maxlen = 3,
          buffer = [Experience 1 1 1 True 2, Experience 0 1 1 False 1,
                    Experience 1 1 1 True 2]\<rparr>\<rparr>)"
proof -
  let ?a' = "demo_agent\<lparr>q_net := 7, q_target := Some 6, epsilon := Fin (1 / 8),
        replay := \<lparr>maxlen = 3,
          buffer = [Experience 1 1 1 True 2, Experience 0 1 1 False 1,
                    Experience 1 1 1 True 2]\<rparr>\<rparr>"
  have e: "(0::real) \<le> 1 / 4"
    by simp
  have d: "0 \<le> epsilon_decay demo_agent \<and> epsilon_decay demo_agent \<le> 1"
    by (simp add: demo_agent_def)
  note inst = epsilon_invariant_preserved [where epsilon' = "1 / 4" and W = demo_world
      and dims' = "[2, 2]" and epsilon_decay' = "1 / 4" and gamma' = "9 / 10" and memory' = 3
      and start_updating' = 2 and batch_size' = 2 and learning_rate = "1 / 1000"
      and descent_frequency' = 1 and update_frequency' = 1 and use_target' = True
      and target_frequency' = 3 and ?a0.0 = demo_agent and a = demo_agent and env = 0 and g = 0
      and episodes = 2 and render_frequency = 1 and a' = ?a' and env' = 2 and g' = 6]
  have first: "epsilon_invariant demo_agent"
    using e demo_init inst by simp
  have after: "epsilon_invariant ?a'"
    using d first demo_train_two inst by simp
  from demo_init first demo_train_two after show ?thesis
    by simp
qed

section \<open>Frequencies of zero\<close>

lemma range_first: "0 < n \<Longrightarrow> map int [0..<nat n] = 0 # map int [1..<nat n]"
  by (simp add: upt_conv_Cons)

lemma train_render_frequency_zero:
  assumes "0 < episodes"
  shows "train W a env g episodes 0 = Some (Inl ZeroDivisionError)"
  using assms
  by (simp add: train_def range_first train_episode_def p_epsilon_def)

lemma train_episode_update_frequency_zero:
  assumes "update_frequency a = 0" "render_frequency \<noteq> 0" "episodes \<noteq> 0"
    "p_epsilon a episode episodes = Inr eps"
    "simulate W (a\<lparr>epsilon := eps\<rparr>) env g (episode mod render_frequency = 0) False =
       Some (Inr (result, r, env1, g1))"
  shows "train_episode W episodes render_frequency episode a env g =
           (if start_updating a \<le> int (len r) then Some (Inl ZeroDivisionError)
            else Some (Inr (a\<lparr>epsilon := eps, replay := r\<rparr>, env1, g1)))"
  using assms
  by (simp add: train_episode_def Let_def)

lemma update_weights_target_frequency_zero:
  assumes "use_target a" "target_frequency a = Some 0" "0 < descent_frequency a"
    "sample W (replay a) (batch_size a) g = Inr (batch, g1)"
  shows "p_update_weights W a gamma' g = Inl ZeroDivisionError"
proof -
  have "sync_target a 0 = Inl ZeroDivisionError"
    using assms(1,2) by (simp add: sync_target_def)
  with assms(4) have "update_step W gamma' a 0 g = Inl ZeroDivisionError"
    by (simp add: update_step_def bellman_batch_def split: prod.splits)
  with assms(3) show ?thesis
    by (simp add: p_update_weights_def range_first)
qed

text \<open>
  In a descent iteration the batch is sampled before the synchronisation is looked at:
  when the sampling fails, its error is the one \<^verbatim>\<open>_update_weights\<close> raises, also with a
  target frequency of zero.
\<close>

lemma update_weights_sample_error_first:
  assumes "0 < descent_frequency a" "sample W (replay a) (batch_size a) g = Inl e"
  shows "p_update_weights W a gamma' g = Inl e"
proof -
  from assms(2) have "update_step W gamma' a 0 g = Inl e"
    by (simp add: update_step_def bellman_batch_def)
  with assms(1) show ?thesis
    by (simp add: p_update_weights_def range_first)
qed

text \<open>
  With \<^verbatim>\<open>update_frequency = 0\<close> and \<^verbatim>\<open>start_updating = 5\<close>, an episode of two steps
  leaves two records in the buffer: \<^verbatim>\<open>len(self.replay) >= self.start_updating\<close> is
  false, the modulo is not evaluated, and \<^verbatim>\<open>train\<close> finishes its first (and only)
  episode without raising.
\<close>

theorem train_update_frequency_zero_returns:
  "update_frequency (demo_agent\<lparr>update_frequency := 0, start_updating := 5\<rparr>) = 0 \<and>
   train demo_world (demo_agent\<lparr>update_frequency := 0, start_updating := 5\<rparr>) 0 0 1 1 =
     Some (Inr (demo_agent\<lparr>update_frequency := 0, start_updating := 5,
        replay := \<lparr>maxlen = 3,
          buffer = [Experience 0 1 1 False 1, Experience 1 1 1 True 2]\<rparr>\<rparr>, 2, 2))"
  by (simp add: train_def train_episode_def p_epsilon_def np_power_def times_float_def
      simulate_def simulate_loop.simps act_def less_float_def append_replay_def len_def
      demo_world_def demo_agent_def)

text \<open>
  Claim C10, as amended. The constructor accepts frequencies of zero (for every
  capacity that the deque accepts). With
  \<^verbatim>\<open>render_frequency = 0\<close> and at least one episode, \<^verbatim>\<open>train\<close> raises
  ZeroDivisionError in its first episode, before simulating. With
  \<^verbatim>\<open>update_frequency = 0\<close> an episode whose simulation returns raises exactly when
  the buffer then holds at least \<^verbatim>\<open>start_updating\<close> records, and completes without
  an update otherwise; so \<^verbatim>\<open>train\<close> raises in its first episode when the buffer
  reaches \<^verbatim>\<open>start_updating\<close> in it. With \<^verbatim>\<open>use_target\<close> and
  \<^verbatim>\<open>target_frequency = 0\<close>, \<^verbatim>\<open>_update_weights\<close> raises ZeroDivisionError in its
  first descent iteration when there is one (\<^verbatim>\<open>descent_frequency >= 1\<close>) and its
  sampling succeeds. The sampling comes first: when it fails, \<^verbatim>\<open>_update_weights\<close> raises
  the sampling's error, not ZeroDivisionError.
\<close>

theorem zero_frequencies:
  "(0 \<le> memory' \<and> memory' \<le> sys_maxsize \<longrightarrow>
      (\<exists>a0. DeepQNetwork_init W dims' epsilon' epsilon_decay' gamma' memory' start_updating'
              batch_size' learning_rate descent_frequency' 0 True 0 = Inr a0 \<and>
            update_frequency a0 = 0 \<and> use_target a0 \<and> target_frequency a0 = Some 0)) \<and>
   (0 < episodes \<longrightarrow> train W a env g episodes 0 = Some (Inl ZeroDivisionError)) \<and>
   (update_frequency a = 0 \<and> render_frequency \<noteq> 0 \<and>
    p_epsilon a episode episodes = Inr eps \<and>
    simulate W (a\<lparr>epsilon := eps\<rparr>) env g (episode mod render_frequency = 0) False =
      Some (Inr (result, r, env1, g1))
    \<longrightarrow> train_episode W episodes render_frequency episode a env g =
          (if start_updating a \<le> int (len r) then Some (Inl ZeroDivisionError)
           else Some (Inr (a\<lparr>epsilon := eps, replay := r\<rparr>, env1, g1)))) \<and>
   (update_frequency a = 0 \<and> render_frequency \<noteq> 0 \<and> 0 < episodes \<and>
    simulate W (a\<lparr>epsilon := Fin (epsilon_init a)\<rparr>) env g True False =
      Some (Inr (result, r, env1, g1)) \<and>
    start_updating a \<le> int (len r)
    \<longrightarrow> train W a env g episodes render_frequency = Some (Inl ZeroDivisionError)) \<and>
   (use_target a \<and> target_frequency a = Some 0 \<and> 0 < descent_frequency a \<and>
    sample W (replay a) (batch_size a) g = Inr (batch, g1)
    \<longrightarrow> p_update_weights W a gamma' g = Inl ZeroDivisionError) \<and>
   (use_target a \<and> target_frequency a = Some 0 \<and> 0 < descent_frequency a \<and>
    sample W (replay a) (batch_size a) g = Inl e
    \<longrightarrow> p_update_weights W a gamma' g = Inl e)"
proof -
  have construction: "\<exists>a0. DeepQNetwork_init W dims' epsilon' epsilon_decay' gamma' memory'
              start_updating' batch_size' learning_rate descent_frequency' 0 True 0 = Inr a0 \<and>
            update_frequency a0 = 0 \<and> use_target a0 \<and> target_frequency a0 = Some 0"
    if "0 \<le> memory' \<and> memory' \<le> sys_maxsize"
    using that by (simp add: DeepQNetwork_init_def ExperienceReplay_init_def Let_def)
  have render: "train W a env g episodes 0 = Some (Inl ZeroDivisionError)" if "0 < episodes"
    using that by (rule train_render_frequency_zero)
  have episode: "train_episode W episodes render_frequency episode a env g =
          (if start_updating a \<le> int (len r) then Some (Inl ZeroDivisionError)
           else Some (Inr (a\<lparr>epsilon := eps, replay := r\<rparr>, env1, g1)))"
    if "update_frequency a = 0 \<and> render_frequency \<noteq> 0 \<and>
        p_epsilon a episode episodes = Inr eps \<and>
        simulate W (a\<lparr>epsilon := eps\<rparr>) env g (episode mod render_frequency = 0) False =
          Some (Inr (result, r, env1, g1))"
  proof -
    from that have "episodes \<noteq> 0"
      by (auto simp: p_epsilon_def split: if_splits)
    with that show ?thesis
      by (intro train_episode_update_frequency_zero) simp_all
  qed
  have first: "train W a env g episodes render_frequency = Some (Inl ZeroDivisionError)"
    if h: "update_frequency a = 0 \<and> render_frequency \<noteq> 0 \<and> 0 < episodes \<and>
        simulate W (a\<lparr>epsilon := Fin (epsilon_init a)\<rparr>) env g True False =
          Some (Inr (result, r, env1, g1)) \<and>
        start_updating a \<le> int (len r)"
  proof -
    from h have p: "p_epsilon a 0 episodes = Inr (Fin (epsilon_init a))"
      by (simp add: p_epsilon_def np_power_zero_exp times_float_def)
    from h have "train_episode W episodes render_frequency 0 a env g =
                   Some (Inl ZeroDivisionError)"
      by (simp add: train_episode_update_frequency_zero [OF _ _ _ p])
    with h show ?thesis
      by (simp add: train_def range_first)
  qed
  have target: "p_update_weights W a gamma' g = Inl ZeroDivisionError"
    if "use_target a \<and> target_frequency a = Some 0 \<and> 0 < descent_frequency a \<and>
        sample W (replay a) (batch_size a) g = Inr (batch, g1)"
    using that by (intro update_weights_target_frequency_zero) simp_all
  have sampling: "p_update_weights W a gamma' g = Inl e"
    if "use_target a \<and> target_frequency a = Some 0 \<and> 0 < descent_frequency a \<and>
        sample W (replay a) (batch_size a) g = Inl e"
    using that by (intro update_weights_sample_error_first) simp_all
  from construction render episode first target sampling show ?thesis
    by blast
qed

theorem zero_frequencies_witness:
  "(\<exists>a0 :: (nat, unit, nat) agent.
      DeepQNetwork_init demo_world [2, 2] (1 / 4) (1 / 4) (9 / 10) 3 2 2 (1 / 1000) 1 0 True 0 =
        Inr a0 \<and> update_frequency a0 = 0 \<and> target_frequency a0 = Some 0) \<and>
   train demo_world (demo_agent\<lparr>update_frequency := 0\<rparr>) 0 0 1 0 =
     Some (Inl ZeroDivisionError) \<and>
   simulate demo_world (demo_agent\<lparr>update_frequency := 0\<rparr>) 0 0 True False =
     Some (Inr ((2, 2, [1, 2]),
       \<lparr>maxlen = 3, buffer = [Experience 0 1 1 False 1, Experience 1 1 1 True 2]\<rparr>, 2, 2)) \<and>
   train_episode demo_world 1 1 0 (demo_agent\<lparr>update_frequency := 0\<rparr>) 0 0 =
     Some (Inl ZeroDivisionError) \<and>
   train demo_world (demo_agent\<lparr>update_frequency := 0\<rparr>) 0 0 1 1 =
     Some (Inl ZeroDivisionError) \<and>
   sample demo_world demo_replay 2 0 = Inr (([0, 1], [0, 1], [1, 4], [False, True], [1, 2]), 1) \<and>
   p_update_weights demo_world (demo_agent\<lparr>target_frequency := Some 0, replay := demo_replay\<rparr>)
     (9 / 10) 0 = Inl ZeroDivisionError \<and>
   sample demo_world (replay (demo_agent\<lparr>target_frequency := Some 0\<rparr>)) 2 0 =
     Inl LargerThanPopulation \<and>
   p_update_weights demo_world (demo_agent\<lparr>target_frequency := Some 0\<rparr>) (9 / 10) 0 =
     Inl LargerThanPopulation"
proof -
  let ?a = "demo_agent\<lparr>update_frequency := 0\<rparr>"
  let ?b = "demo_agent\<lparr>target_frequency := Some 0, replay := demo_replay\<rparr>"
  let ?c = "demo_agent\<lparr>target_frequency := Some 0\<rparr>"
  let ?r = "\<lparr>maxlen = 3, buffer = [Experience 0 1 1 False 1, Experience 1 1 1 True (2::nat)]\<rparr>"
  have m: "(0::int) \<le> 3 \<and> (3::int) \<le> sys_maxsize"
    by (simp add: sys_maxsize_def)
  have n: "(0::int) < 1" and rf: "(1::int) \<noteq> 0"
    by simp_all
  have u: "update_frequency ?a = 0"
    by simp
  have p: "p_epsilon ?a 0 1 = Inr (Fin (1 / 4))"
    by (simp add: p_epsilon_def np_power_def times_float_def demo_agent_def)
  have s: "simulate demo_world (?a\<lparr>epsilon := Fin (1 / 4)\<rparr>) 0 0 True False =
             Some (Inr ((2, 2, [1, 2]), ?r, 2, 2))"
    by (simp add: simulate_def simulate_loop.simps act_def less_float_def append_replay_def
        demo_world_def demo_agent_def)
  have s': "simulate demo_world ?a 0 0 True False = Some (Inr ((2, 2, [1, 2]), ?r, 2, 2))"
    by (simp add: simulate_def simulate_loop.simps act_def less_float_def append_replay_def
        demo_world_def demo_agent_def)
  have s4: "simulate demo_world (?a\<lparr>epsilon := Fin (epsilon_init ?a)\<rparr>) 0 0 True False =
             Some (Inr ((2, 2, [1, 2]), ?r, 2, 2))"
    by (simp add: simulate_def simulate_loop.simps act_def less_float_def append_replay_def
        demo_world_def demo_agent_def)
  have su: "start_updating ?a \<le> int (len ?r)"
    by (simp add: demo_agent_def len_def)
  have t: "use_target ?b \<and> target_frequency ?b = Some 0 \<and> 0 < descent_frequency ?b"
    by (simp add: demo_agent_def)
  have k: "sample demo_world (replay ?b) (batch_size ?b) 0 =
             Inr (([0, 1], [0, 1], [1, 4], [False, True], [1, 2]), 1)"
    by (simp add: sample_def demo_world_def demo_agent_def demo_replay_def upt_two)
  have k': "sample demo_world demo_replay 2 0 =
             Inr (([0, 1], [0, 1], [1, 4], [False, True], [1, 2]), 1)"
    using k by (simp add: demo_agent_def)
  note z1 = zero_frequencies [where memory' = 3 and W = demo_world and dims' = "[2, 2]"
      and epsilon' = "1 / 4" and epsilon_decay' = "1 / 4" and gamma' = "9 / 10"
      and start_updating' = 2 and batch_size' = 2 and learning_rate = "1 / 1000"
      and descent_frequency' = 1 and episodes = 1 and a = ?a and env = 0 and g = 0
      and render_frequency = 1 and episode = 0 and eps = "Fin (1 / 4)"
      and result = "(2, 2, [1, 2])" and r = ?r and ?env1.0 = 2 and ?g1.0 = 2
      and batch = "([0, 1], [0, 1], [1, 4], [False, True], [1, 2])"
      and e = LargerThanPopulation]
  note z2 = zero_frequencies [where memory' = 3 and W = demo_world and dims' = "[2, 2]"
      and epsilon' = "1 / 4" and epsilon_decay' = "1 / 4" and gamma' = "9 / 10"
      and start_updating' = 2 and batch_size' = 2 and learning_rate = "1 / 1000"
      and descent_frequency' = 1 and a = ?b and g = 0
      and batch = "([0, 1], [0, 1], [1, 4], [False, True], [1, 2])" and ?g1.0 = 1
      and e = LargerThanPopulation]
  note z3 = zero_frequencies [where memory' = 3 and W = demo_world and dims' = "[2, 2]"
      and epsilon' = "1 / 4" and epsilon_decay' = "1 / 4" and gamma' = "9 / 10"
      and start_updating' = 2 and batch_size' = 2 and learning_rate = "1 / 1000"
      and descent_frequency' = 1 and a = ?c and g = 0
      and batch = "([0, 1], [0, 1], [1, 4], [False, True], [1, 2])" and ?g1.0 = 1
      and e = LargerThanPopulation]
  have t3: "use_target ?c \<and> target_frequency ?c = Some 0 \<and> 0 < descent_frequency ?c"
    by (simp add: demo_agent_def)
  have k3: "sample demo_world (replay ?c) (batch_size ?c) 0 = Inl LargerThanPopulation"
    by (simp add: sample_def demo_agent_def)
  have k3': "sample demo_world (replay ?c) 2 0 = Inl LargerThanPopulation"
    using k3 by (simp add: demo_agent_def)
  have c1: "\<exists>a0 :: (nat, unit, nat) agent.
      DeepQNetwork_init demo_world [2, 2] (1 / 4) (1 / 4) (9 / 10) 3 2 2 (1 / 1000) 1 0 True 0 =
        Inr a0 \<and> update_frequency a0 = 0 \<and> target_frequency a0 = Some 0"
    using m z1 [THEN conjunct1] by auto
  have c2: "train demo_world ?a 0 0 1 0 = Some (Inl ZeroDivisionError)"
    using n z1 by simp
  have c3: "train_episode demo_world 1 1 0 ?a 0 0 = Some (Inl ZeroDivisionError)"
    using u rf p s su z1 by simp
  have c4: "train demo_world ?a 0 0 1 1 = Some (Inl ZeroDivisionError)"
    using u rf n s4 su z1 by simp
  have c5: "p_update_weights demo_world ?b (9 / 10) 0 = Inl ZeroDivisionError"
    using t k z2 by simp
  have c6: "p_update_weights demo_world ?c (9 / 10) 0 = Inl LargerThanPopulation"
    using t3 k3 z3 by simp
  from c1 c2 s' c3 c4 k' c5 k3' c6 show ?thesis
    by simp
qed

end
